theory Spec2Isabelle
  imports Main "HOL-Library.AList"
begin

section \<open>The syntax tree of the external parsing engine\<close>

text \<open>
  The extractor of \<^verbatim>\<open>codegraphcontext/dart.py\<close> reads a concrete syntax tree built by the
  tree-sitter engine.  A node carries its type tag, whether it is a named node, the field
  name under which its parent holds it, its byte span, the rows of its start and end
  points, its text and its ordered children.  Rows and offsets are unsigned in the engine.
\<close>

datatype node =
  Node (ntype: string) (is_named: bool) (field_name: "string option")
       (start_byte: nat) (end_byte: nat) (start_row: nat) (end_row: nat)
       (ntext: string) (children: "node list")

text \<open>
  The engine hands out nodes that know their place in the tree (\<^verbatim>\<open>parent\<close>,
  \<^verbatim>\<open>prev_sibling\<close>, \<^verbatim>\<open>next_named_sibling\<close>).  A cursor is a node together with the
  chain of its ancestors, nearest first, each with the index the node below has among the
  ancestor's children.
\<close>

datatype cursor = Cursor (cnode: node) (ctx: "(nat \<times> node) list")

definition ctype :: "cursor \<Rightarrow> string" where
  "ctype c = ntype (cnode c)"

definition child_cursors :: "cursor \<Rightarrow> cursor list" where
  "child_cursors c =
     map (\<lambda>i. Cursor (children (cnode c) ! i) ((i, cnode c) # ctx c))
       [0 ..< length (children (cnode c))]"

fun parent :: "cursor \<Rightarrow> cursor option" where
  "parent (Cursor n []) = None"
| "parent (Cursor n ((i, p) # fs)) = Some (Cursor p fs)"

fun prev_sibling :: "cursor \<Rightarrow> cursor option" where
  "prev_sibling (Cursor n []) = None"
| "prev_sibling (Cursor n ((i, p) # fs)) =
     (if 0 < i \<and> i - 1 < length (children p)
      then Some (Cursor (children p ! (i - 1)) ((i - 1, p) # fs))
      else None)"

fun next_named_sibling :: "cursor \<Rightarrow> cursor option" where
  "next_named_sibling (Cursor n []) = None"
| "next_named_sibling (Cursor n ((i, p) # fs)) =
     (case List.find (\<lambda>j. is_named (children p ! j)) [Suc i ..< length (children p)] of
        None \<Rightarrow> None
      | Some j \<Rightarrow> Some (Cursor (children p ! j) ((j, p) # fs)))"

definition child_by_field_name :: "cursor \<Rightarrow> string \<Rightarrow> cursor option" where
  "child_by_field_name c f =
     List.find (\<lambda>k. field_name (cnode k) = Some f) (child_cursors c)"

text \<open>\<^verbatim>\<open>_text\<close>: the node's bytes, decoded.\<close>

definition text_of :: "cursor \<Rightarrow> string" where
  "text_of c = ntext (cnode c)"

section \<open>Python string helpers\<close>

text \<open>
  \<^verbatim>\<open>str.strip()\<close> removes leading and trailing white space, \<^verbatim>\<open>str.strip(chars)\<close> the
  leading and trailing characters that belong to \<^verbatim>\<open>chars\<close>.  Text is a list of 8-bit
  characters here, so white space is the ASCII white space of Python
  (tab, line feed, vertical tab, form feed, carriage return, the four separators
  \<^verbatim>\<open>0x1c\<close> to \<^verbatim>\<open>0x1f\<close>, and the blank).
\<close>

definition py_isspace :: "char \<Rightarrow> bool" where
  "py_isspace c = (of_char c \<in> {9, 10, 11, 12, 13, 28, 29, 30, 31, 32 :: nat})"

definition strip_with :: "(char \<Rightarrow> bool) \<Rightarrow> string \<Rightarrow> string" where
  "strip_with P s = rev (dropWhile P (rev (dropWhile P s)))"

definition py_strip :: "string \<Rightarrow> string" where
  "py_strip s = strip_with py_isspace s"

definition py_strip_chars :: "string \<Rightarrow> string \<Rightarrow> string" where
  "py_strip_chars cs s = strip_with (\<lambda>c. c \<in> set cs) s"

text \<open>\<^verbatim>\<open>sub in s\<close> on strings: \<^verbatim>\<open>sub\<close> occurs in \<^verbatim>\<open>s\<close> as a contiguous run.\<close>

fun py_in :: "string \<Rightarrow> string \<Rightarrow> bool" where
  "py_in sub [] = (sub = [])"
| "py_in sub (c # cs) = (take (length sub) (c # cs) = sub \<or> py_in sub cs)"

text \<open>\<^verbatim>\<open>sep.join(parts)\<close>.\<close>

fun py_join :: "string \<Rightarrow> string list \<Rightarrow> string" where
  "py_join sep [] = []"
| "py_join sep [x] = x"
| "py_join sep (x # y # ys) = x @ sep @ py_join sep (y # ys)"

text \<open>Truthiness of an optional string: \<^verbatim>\<open>None\<close> and the empty string are false.\<close>

fun truthy :: "string option \<Rightarrow> bool" where
  "truthy None = False"
| "truthy (Some s) = (s \<noteq> [])"

section \<open>Helpers of \<^verbatim>\<open>DartTreeSitterParser\<close>\<close>

definition language_name :: string where
  "language_name = ''dart''"

subsection \<open>\<^verbatim>\<open>_calc_complexity\<close>\<close>

definition complexity_nodes :: "string list" where
  "complexity_nodes =
     [''if_statement'', ''for_statement'', ''while_statement'', ''do_statement'',
      ''switch_statement'', ''case_clause'', ''default_clause'', ''conditional_expression'',
      ''logical_or_expression'', ''logical_and_expression'', ''binary_expression'',
      ''try_statement'', ''catch_clause'']"

text \<open>
  The inner \<^verbatim>\<open>walk\<close> bumps the enclosing counter at a node of a listed type and then
  walks the children in order; the counter is threaded through.
\<close>

fun walk :: "node \<Rightarrow> nat \<Rightarrow> nat" where
  "walk (Node ty nm fl sb eb sr er tx ks) count =
     fold walk ks (if ty \<in> set complexity_nodes then count + 1 else count)"

definition calc_complexity :: "node \<Rightarrow> nat" where
  "calc_complexity n = walk n 1"

subsection \<open>\<^verbatim>\<open>_leading_line_comment\<close>\<close>

definition sib_index :: "cursor option \<Rightarrow> nat" where
  "sib_index oc = (case oc of None \<Rightarrow> 0
                   | Some c \<Rightarrow> (case ctx c of [] \<Rightarrow> 1 | (i, p) # fs \<Rightarrow> Suc (Suc i)))"

function comment_loop :: "cursor option \<Rightarrow> string option" where
  "comment_loop None = None"
| "comment_loop (Some prev) =
     (if ctype prev \<in> set [[CHR 0x0A], '' '', ''metadata''] \<or> py_in ''comment'' (ctype prev)
      then (if py_in ''comment'' (ctype prev)
            then Some (py_strip (text_of prev))
            else comment_loop (prev_sibling prev))
      else None)"
  by pat_completeness auto
termination
proof (relation "measure sib_index")
  show "wf (measure sib_index)" by simp
next
  fix prev :: cursor
  show "(prev_sibling prev, Some prev) \<in> measure sib_index"
  proof (cases prev)
    case (Cursor n fs)
    then show ?thesis
      by (cases fs) (auto simp: sib_index_def)
  qed
qed

definition leading_line_comment :: "cursor \<Rightarrow> string option" where
  "leading_line_comment c = comment_loop (prev_sibling c)"

subsection \<open>\<^verbatim>\<open>_extract_function_name\<close>\<close>

text \<open>
  The constructor branch collects the texts of the leading children that are identifiers
  or dots and stops at the first child of another type.
\<close>

fun name_parts :: "cursor list \<Rightarrow> string list" where
  "name_parts [] = []"
| "name_parts (child # rest) =
     (if ctype child = ''identifier'' then text_of child # name_parts rest
      else if ctype child = ''.'' then ''.'' # name_parts rest
      else [])"

definition extract_function_name :: "cursor option \<Rightarrow> string option" where
  "extract_function_name onode =
     (case onode of
        None \<Rightarrow> None
      | Some node \<Rightarrow>
          (case (if ctype node \<in> set [''function_signature'', ''getter_signature'',
                                        ''setter_signature'']
                 then child_by_field_name node ''name'' else None) of
             Some nm \<Rightarrow> Some (text_of nm)
           | None \<Rightarrow>
               (if ctype node = ''constructor_signature''
                then (let parts = name_parts (child_cursors node)
                      in if parts \<noteq> [] then Some (concat parts) else None)
                else None)))"

section \<open>The query engine and \<^verbatim>\<open>_captures\<close>\<close>

text \<open>
  Parsing and pattern queries belong to the tree-sitter library, not to this module.  The
  engine is a parameter: whether a pattern compiles, the dictionary from capture label to
  captured nodes that a compiled query returns on a tree, and the parser, which may raise.
  A compiled query is represented by the name of its pattern.
\<close>

record engine =
  compiles :: "string \<Rightarrow> bool"
  run_query :: "string \<Rightarrow> node \<Rightarrow> (string \<times> cursor list) list"
  ts_parse :: "string \<Rightarrow> node option"

text \<open>
  \<^verbatim>\<open>DART_QUERIES\<close>: the categories and whether a pattern text is given for them
  (\<^verbatim>\<open>calls\<close> and \<^verbatim>\<open>variables\<close> are \<^verbatim>\<open>None\<close>).
\<close>

definition DART_QUERIES :: "(string \<times> bool) list" where
  "DART_QUERIES =
     [(''functions'', True), (''classes'', True), (''imports'', True),
      (''calls'', False), (''variables'', False), (''comments'', True)]"

text \<open>The constructor compiles every pattern once; a failure leaves \<^verbatim>\<open>None\<close>.\<close>

definition init_queries :: "engine \<Rightarrow> (string \<times> string option) list" where
  "init_queries E =
     map (\<lambda>(name, has_pattern).
            (name, if \<not> has_pattern then None
                   else if compiles E name then Some name else None))
       DART_QUERIES"

definition captures :: "engine \<Rightarrow> string \<Rightarrow> node \<Rightarrow> (cursor \<times> string) list" where
  "captures E query_name root =
     (case map_of (init_queries E) query_name of
        None \<Rightarrow> []
      | Some None \<Rightarrow> []
      | Some (Some query) \<Rightarrow>
          sort_key (\<lambda>item. start_byte (cnode (fst item)))
            (concat (map (\<lambda>(capture_name, nodes). map (\<lambda>captured. (captured, capture_name)) nodes)
                       (run_query E query root))))"

section \<open>Entities\<close>

record function_entity =
  fn_name :: string
  fn_line_number :: nat
  fn_end_line :: nat
  fn_args :: "string list"
  fn_source :: string
  fn_source_code :: string
  fn_docstring :: "string option"
  fn_cyclomatic_complexity :: nat
  fn_context :: "string option"
  fn_context_type :: "string option"
  fn_class_context :: "string option"
  fn_decorators :: "string list"
  fn_lang :: string
  fn_is_dependency :: bool

record class_entity =
  cl_name :: string
  cl_line_number :: nat
  cl_end_line :: nat
  cl_bases :: "string list"
  cl_source :: string
  cl_docstring :: "string option"
  cl_context :: "string option"
  cl_decorators :: "string list"
  cl_lang :: string
  cl_is_dependency :: bool

record import_entity =
  im_name :: string
  im_full_import_name :: string
  im_line_number :: nat
  im_alias :: "string option"
  im_lang :: string
  im_is_dependency :: bool

record call_entity =
  ca_name :: string
  ca_full_name :: string
  ca_line_number :: nat
  ca_args :: "string list"
  ca_inferred_obj_type :: "string option"
  ca_context :: "string option"
  ca_class_context :: "string option"
  ca_lang :: string
  ca_is_dependency :: bool

record variable_entity =
  va_name :: string
  va_line_number :: nat
  va_value :: "string option"
  va_type :: "string option"
  va_context :: "string option"
  va_class_context :: "string option"
  va_lang :: string
  va_is_dependency :: bool

record file_record =
  fr_file_path :: string
  fr_functions :: "function_entity list"
  fr_classes :: "class_entity list"
  fr_variables :: "variable_entity list"
  fr_imports :: "import_entity list"
  fr_function_calls :: "call_entity list"
  fr_is_dependency :: bool
  fr_lang :: string

section \<open>\<^verbatim>\<open>_find_functions\<close>\<close>

definition signature_types :: "string list" where
  "signature_types =
     [''function_signature'', ''getter_signature'', ''setter_signature'',
      ''constructor_signature'']"

text \<open>
  The upward walks of the module (\<^verbatim>\<open>while cur: ... cur = cur.parent\<close>): the nearest
  node, starting at \<^verbatim>\<open>cur\<close> itself, whose type is one of \<^verbatim>\<open>types\<close>.
\<close>

definition depth :: "cursor option \<Rightarrow> nat" where
  "depth oc = (case oc of None \<Rightarrow> 0 | Some c \<Rightarrow> Suc (length (ctx c)))"

function climb :: "string list \<Rightarrow> cursor option \<Rightarrow> cursor option" where
  "climb types None = None"
| "climb types (Some cur) =
     (if ctype cur \<in> set types then Some cur else climb types (parent cur))"
  by pat_completeness auto
termination
proof (relation "measure (\<lambda>(types, oc). depth oc)")
  show "wf (measure (\<lambda>(types, oc). depth oc))" by simp
next
  fix types :: "string list" and cur :: cursor
  show "((types, parent cur), (types, Some cur)) \<in> measure (\<lambda>(types, oc). depth oc)"
  proof (cases cur)
    case (Cursor n fs)
    then show ?thesis
      by (cases fs) (auto simp: depth_def)
  qed
qed

definition find_signature :: "cursor \<Rightarrow> cursor option" where
  "find_signature node = climb signature_types (Some node)"

text \<open>
  The accumulator of one declaration.  The dictionary of buckets is keyed by the byte span
  of the signature node and keeps insertion order.  An entry is created with its signature
  set, so the later test \<^verbatim>\<open>entry.get("signature") is None\<close> never holds.
\<close>

record bucket_entry =
  b_signature :: cursor
  b_name :: "string option"
  b_params :: "cursor option"

type_synonym buckets = "((nat \<times> nat) \<times> bucket_entry) list"

definition span_key :: "cursor \<Rightarrow> nat \<times> nat" where
  "span_key sig = (start_byte (cnode sig), end_byte (cnode sig))"

definition bucket :: "cursor \<Rightarrow> buckets \<Rightarrow> buckets" where
  "bucket sig bs =
     (if map_of bs (span_key sig) = None
      then bs @ [(span_key sig, \<lparr>b_signature = sig, b_name = None, b_params = None\<rparr>)]
      else bs)"

definition capture_step :: "cursor \<times> string \<Rightarrow> buckets \<Rightarrow> buckets" where
  "capture_step item bs =
     (let node = fst item; cap = snd item in
      if cap = ''function_node'' then
        (case find_signature node of
           Some sig \<Rightarrow> bucket sig bs
         | None \<Rightarrow> bs)
      else if cap = ''name'' then
        (case find_signature node of
           Some sig \<Rightarrow>
             AList.map_entry (span_key sig) (\<lambda>b. b\<lparr>b_name := Some (text_of node)\<rparr>)
               (bucket sig bs)
         | None \<Rightarrow> bs)
      else if cap = ''params'' then
        (case find_signature node of
           Some fn \<Rightarrow>
             AList.map_entry (span_key fn) (\<lambda>b. b\<lparr>b_params := Some node\<rparr>) (bucket fn bs)
         | None \<Rightarrow> bs)
      else bs)"

text \<open>Name resolution of one bucket; \<^verbatim>\<open>None\<close> stands for the \<^verbatim>\<open>continue\<close>.\<close>

definition resolve_name :: "bucket_entry \<Rightarrow> string option" where
  "resolve_name info =
     (let fn_node = b_signature info;
          derived_name = extract_function_name (Some fn_node);
          name = (if \<not> truthy (b_name info) then derived_name
                  else if ctype fn_node = ''constructor_signature'' \<and> truthy derived_name
                       then derived_name
                  else b_name info)
      in if \<not> truthy name then None else name)"

text \<open>Parameter names, best effort.\<close>

definition name_field :: "cursor \<Rightarrow> string list" where
  "name_field ch = (case child_by_field_name ch ''name'' of
                      Some idn \<Rightarrow> [text_of idn]
                    | None \<Rightarrow> [])"

definition nested_param :: "cursor \<Rightarrow> string list" where
  "nested_param ch =
     (if ctype ch = ''normal_formal_parameter'' then name_field ch
      else if ctype ch = ''simple_formal_parameter'' then name_field ch
      else [])"

definition param_child :: "cursor \<Rightarrow> string list" where
  "param_child child =
     (if ctype child = ''formal_parameter_list''
      then concat (map nested_param (child_cursors child))
      else if ctype child = ''simple_formal_parameter'' then name_field child
      else [])"

definition param_names :: "cursor option \<Rightarrow> string list" where
  "param_names op = (case op of
                       None \<Rightarrow> []
                     | Some p \<Rightarrow> concat (map param_child (child_cursors p)))"

text \<open>The enclosing wrapper, the body, the documentation and the source text.\<close>

definition container_of :: "cursor \<Rightarrow> cursor" where
  "container_of fn_node =
     (case parent fn_node of
        Some par \<Rightarrow>
          (if ctype par \<in> set [''method_signature'', ''setter_signature'', ''getter_signature'',
                                 ''constructor_signature'', ''declaration'']
           then par else fn_node)
      | None \<Rightarrow> fn_node)"

fun first_body :: "cursor option list \<Rightarrow> cursor option" where
  "first_body [] = None"
| "first_body (None # rest) = first_body rest"
| "first_body (Some candidate # rest) =
     (if ctype candidate = ''function_body'' then Some candidate else first_body rest)"

definition body_of :: "cursor \<Rightarrow> cursor option" where
  "body_of fn_node =
     first_body [next_named_sibling (container_of fn_node), next_named_sibling fn_node]"

definition end_node_of :: "cursor \<Rightarrow> cursor" where
  "end_node_of fn_node = (case body_of fn_node of
                            Some body_node \<Rightarrow> body_node
                          | None \<Rightarrow> container_of fn_node)"

definition doc_of :: "cursor \<Rightarrow> string option" where
  "doc_of fn_node =
     (let doc = leading_line_comment fn_node in
      if doc = None \<and> container_of fn_node \<noteq> fn_node
      then leading_line_comment (container_of fn_node)
      else doc)"

definition source_text_of :: "cursor \<Rightarrow> string" where
  "source_text_of fn_node =
     (let source_segments =
            text_of fn_node # (case body_of fn_node of
                                 Some body_node \<Rightarrow> [text_of body_node]
                               | None \<Rightarrow> [])
      in py_join [CHR 0x0A] (filter (\<lambda>segment. py_strip segment \<noteq> []) source_segments))"

definition function_of_bucket :: "bucket_entry \<Rightarrow> function_entity option" where
  "function_of_bucket info =
     (case resolve_name info of
        None \<Rightarrow> None
      | Some name \<Rightarrow>
          (let fn_node = b_signature info in
           Some \<lparr>fn_name = name,
                 fn_line_number = start_row (cnode (container_of fn_node)) + 1,
                 fn_end_line = end_row (cnode (end_node_of fn_node)) + 1,
                 fn_args = param_names (b_params info),
                 fn_source = source_text_of fn_node,
                 fn_source_code = source_text_of fn_node,
                 fn_docstring = doc_of fn_node,
                 fn_cyclomatic_complexity = calc_complexity (cnode (end_node_of fn_node)),
                 fn_context = None,
                 fn_context_type = None,
                 fn_class_context = None,
                 fn_decorators = [],
                 fn_lang = language_name,
                 fn_is_dependency = False\<rparr>))"

definition emit_functions :: "bucket_entry list \<Rightarrow> function_entity list" where
  "emit_functions infos = List.map_filter function_of_bucket infos"

definition function_buckets :: "(cursor \<times> string) list \<Rightarrow> bucket_entry list" where
  "function_buckets caps = map snd (foldl (\<lambda>bs item. capture_step item bs) [] caps)"

definition find_functions :: "engine \<Rightarrow> node \<Rightarrow> function_entity list" where
  "find_functions E root =
     (let caps = captures E ''functions'' root in
      if caps = [] then [] else emit_functions (function_buckets caps))"

section \<open>\<^verbatim>\<open>_find_classes\<close>\<close>

text \<open>The loop over the children that stops at the first identifier.\<close>

fun first_identifier :: "cursor list \<Rightarrow> cursor option" where
  "first_identifier [] = None"
| "first_identifier (child # rest) =
     (if ctype child = ''identifier'' then Some child else first_identifier rest)"

definition class_name_node :: "cursor \<Rightarrow> cursor option" where
  "class_name_node node =
     (case child_by_field_name node ''name'' of
        Some name_node \<Rightarrow> Some name_node
      | None \<Rightarrow> first_identifier (child_cursors node))"

definition class_of_capture :: "cursor \<Rightarrow> class_entity" where
  "class_of_capture node =
     \<lparr>cl_name = (case class_name_node node of
                   None \<Rightarrow> ''extension''
                 | Some name_node \<Rightarrow> text_of name_node),
      cl_line_number = start_row (cnode node) + 1,
      cl_end_line = end_row (cnode node) + 1,
      cl_bases = [],
      cl_source = text_of node,
      cl_docstring = leading_line_comment node,
      cl_context = None,
      cl_decorators = [],
      cl_lang = language_name,
      cl_is_dependency = False\<rparr>"

definition find_classes :: "engine \<Rightarrow> node \<Rightarrow> class_entity list" where
  "find_classes E root =
     map (\<lambda>item. class_of_capture (fst item))
       (filter (\<lambda>item. snd item = ''class'') (captures E ''classes'' root))"

section \<open>\<^verbatim>\<open>_find_imports\<close>\<close>

definition import_of_capture :: "cursor \<Rightarrow> import_entity" where
  "import_of_capture node =
     (let par = (case parent node of Some q \<Rightarrow> q | None \<Rightarrow> node);
          raw = py_strip_chars [CHR 0x22, CHR 0x27] (text_of node)
      in \<lparr>im_name = raw,
          im_full_import_name = raw,
          im_line_number = start_row (cnode par) + 1,
          im_alias = None,
          im_lang = language_name,
          im_is_dependency = False\<rparr>)"

definition find_imports :: "engine \<Rightarrow> node \<Rightarrow> import_entity list" where
  "find_imports E root =
     map (\<lambda>item. import_of_capture (fst item))
       (filter (\<lambda>item. snd item = ''path'') (captures E ''imports'' root))"

section \<open>\<^verbatim>\<open>_find_calls\<close> and \<^verbatim>\<open>_find_variables\<close>\<close>

definition call_of_capture :: "cursor \<Rightarrow> call_entity" where
  "call_of_capture node =
     \<lparr>ca_name = text_of node,
      ca_full_name = (case parent node of Some q \<Rightarrow> text_of q | None \<Rightarrow> text_of node),
      ca_line_number = start_row (cnode node) + 1,
      ca_args = [],
      ca_inferred_obj_type = None,
      ca_context = None,
      ca_class_context = None,
      ca_lang = language_name,
      ca_is_dependency = False\<rparr>"

definition find_calls :: "engine \<Rightarrow> node \<Rightarrow> call_entity list" where
  "find_calls E root =
     map (\<lambda>item. call_of_capture (fst item))
       (filter (\<lambda>item. snd item = ''name'') (captures E ''calls'' root))"

text \<open>
  Variable declarations are bucketed by the identity of the declaration node object; the
  node's place in the tree stands for that identity here.  No pattern exists for the
  category, so the bucketing is never reached.
\<close>

record variable_bucket =
  v_node :: cursor
  v_name :: "string option"
  v_value :: "string option"

definition declaration_types :: "string list" where
  "declaration_types =
     [''initialized_variable_declaration'', ''variable_declaration'',
      ''top_level_variable_declaration'']"

definition variable_bucket :: "cursor \<Rightarrow> (cursor \<times> variable_bucket) list
    \<Rightarrow> (cursor \<times> variable_bucket) list" where
  "variable_bucket n bs =
     (if map_of bs n = None
      then bs @ [(n, \<lparr>v_node = n, v_name = None, v_value = None\<rparr>)]
      else bs)"

definition variable_step :: "cursor \<times> string \<Rightarrow> (cursor \<times> variable_bucket) list
    \<Rightarrow> (cursor \<times> variable_bucket) list" where
  "variable_step item bs =
     (let node = fst item; cap = snd item in
      if cap = ''name'' then
        (case climb declaration_types (Some node) of
           Some cur \<Rightarrow>
             AList.map_entry cur (\<lambda>b. b\<lparr>v_name := Some (text_of node)\<rparr>) (variable_bucket cur bs)
         | None \<Rightarrow> bs)
      else if cap = ''value'' then
        (case climb declaration_types (Some node) of
           Some cur \<Rightarrow>
             AList.map_entry cur (\<lambda>b. b\<lparr>v_value := Some (text_of node)\<rparr>) (variable_bucket cur bs)
         | None \<Rightarrow> bs)
      else bs)"

definition variable_of_bucket :: "variable_bucket \<Rightarrow> variable_entity option" where
  "variable_of_bucket info =
     (if \<not> truthy (v_name info) then None
      else Some \<lparr>va_name = (case v_name info of Some nm \<Rightarrow> nm | None \<Rightarrow> []),
                 va_line_number = start_row (cnode (v_node info)) + 1,
                 va_value = v_value info,
                 va_type = None,
                 va_context = None,
                 va_class_context = None,
                 va_lang = language_name,
                 va_is_dependency = False\<rparr>)"

definition find_variables :: "engine \<Rightarrow> node \<Rightarrow> variable_entity list" where
  "find_variables E root =
     (let caps = captures E ''variables'' root in
      if caps = [] then []
      else List.map_filter variable_of_bucket
             (map snd (foldl (\<lambda>bs item. variable_step item bs) [] caps)))"

section \<open>\<^verbatim>\<open>parse\<close>\<close>

text \<open>
  The file system is a parameter: \<^verbatim>\<open>read_text\<close> gives the contents of a path, or
  \<^verbatim>\<open>None\<close> when reading raises.  The read is the only call inside the \<^verbatim>\<open>try\<close>; an
  exception of the parser escapes the call.
\<close>

datatype error = ParserRaised

definition parse :: "engine \<Rightarrow> (string \<Rightarrow> string option) \<Rightarrow> string \<Rightarrow> bool
    \<Rightarrow> error + file_record" where
  "parse E read_text path dep =
     (case read_text path of
        None \<Rightarrow>
          Inr \<lparr>fr_file_path = path, fr_functions = [], fr_classes = [], fr_variables = [],
               fr_imports = [], fr_function_calls = [], fr_is_dependency = dep,
               fr_lang = language_name\<rparr>
      | Some source_code \<Rightarrow>
          (case ts_parse E source_code of
             None \<Rightarrow> Inl ParserRaised
           | Some root \<Rightarrow>
               Inr \<lparr>fr_file_path = path,
                    fr_functions = find_functions E root,
                    fr_classes = find_classes E root,
                    fr_variables = find_variables E root,
                    fr_imports = find_imports E root,
                    fr_function_calls = find_calls E root,
                    fr_is_dependency = dep,
                    fr_lang = language_name\<rparr>))"

section \<open>\<^verbatim>\<open>pre_scan_dart\<close>\<close>

text \<open>
  The index is a dictionary from symbol to a list of paths, in insertion order.
  \<^verbatim>\<open>resolve\<close> is the file system's absolute path of a path.  Whatever raises while one
  file is handled is caught, and the loop goes on with the next file.
\<close>

type_synonym imports_map = "(string \<times> string list) list"

definition setdefault :: "string \<Rightarrow> string list \<Rightarrow> imports_map \<Rightarrow> imports_map" where
  "setdefault k v m = (if map_of m k = None then m @ [(k, v)] else m)"

definition add_symbol :: "string \<Rightarrow> cursor \<Rightarrow> imports_map \<Rightarrow> imports_map" where
  "add_symbol fullpath node m =
     (let sym = ntext (cnode node);
          m1 = setdefault sym [] m
      in if fullpath \<notin> set (case map_of m1 sym of Some ps \<Rightarrow> ps | None \<Rightarrow> [])
         then AList.map_entry sym (\<lambda>ps. ps @ [fullpath]) m1
         else m1)"

definition scan_captures :: "string \<Rightarrow> (string \<times> cursor list) list \<Rightarrow> imports_map
    \<Rightarrow> imports_map" where
  "scan_captures fullpath caps m =
     foldl (\<lambda>acc (cap_name, nodes).
              if cap_name \<noteq> ''name'' then acc
              else foldl (\<lambda>a node. add_symbol fullpath node a) acc nodes)
       m caps"

definition scan_file :: "engine \<Rightarrow> (string \<Rightarrow> string option) \<Rightarrow> (string \<Rightarrow> string)
    \<Rightarrow> string \<Rightarrow> imports_map \<Rightarrow> imports_map" where
  "scan_file E read_text resolve path m =
     (case read_text path of
        None \<Rightarrow> m
      | Some txt \<Rightarrow>
          (case ts_parse E txt of
             None \<Rightarrow> m
           | Some root \<Rightarrow> scan_captures (resolve path) (run_query E ''pre_scan'' root) m))"

definition pre_scan_dart :: "engine \<Rightarrow> (string \<Rightarrow> string option) \<Rightarrow> (string \<Rightarrow> string)
    \<Rightarrow> string list \<Rightarrow> imports_map" where
  "pre_scan_dart E read_text resolve files =
     (if \<not> compiles E ''pre_scan'' then []
      else foldl (\<lambda>m path. scan_file E read_text resolve path m) [] files)"

section \<open>Notions used to state the properties\<close>

text \<open>The nodes of a subtree, the root first, and the number of decision points among them.\<close>

fun nodes_of :: "node \<Rightarrow> node list" where
  "nodes_of (Node ty nm fl sb eb sr er tx ks) =
     Node ty nm fl sb eb sr er tx ks # concat (map nodes_of ks)"

definition decision_points :: "node \<Rightarrow> nat" where
  "decision_points n = length (filter (\<lambda>m. ntype m \<in> set complexity_nodes) (nodes_of n))"

text \<open>
  The complexity as the specification words it: one plus the decision points of the
  declaration's full span, the signature plus the body when a body is present.
\<close>

definition spec_full_span_complexity :: "cursor \<Rightarrow> nat" where
  "spec_full_span_complexity fn_node =
     1 + decision_points (cnode fn_node)
       + (case body_of fn_node of
            Some body_node \<Rightarrow> decision_points (cnode body_node)
          | None \<Rightarrow> 0)"

text \<open>
  The line of an import as the specification words it: the starting line of the enclosing
  directive node, the nearest ancestor that is one of the directives of the import pattern.
\<close>

definition directive_types :: "string list" where
  "directive_types = [''import_or_export'', ''part_directive'', ''part_of_directive'']"

definition spec_directive_line :: "cursor \<Rightarrow> nat option" where
  "spec_directive_line node =
     map_option (\<lambda>d. start_row (cnode d) + 1) (climb directive_types (Some node))"

text \<open>
  Trees of the engine, as far as rows go: a node ends no earlier than it starts, its
  children lie inside it, and the children follow one another in source order.
\<close>

fun wf_rows :: "node \<Rightarrow> bool" where
  "wf_rows (Node ty nm fl sb eb sr er tx ks) =
     (sr \<le> er
      \<and> list_all (\<lambda>k. sr \<le> start_row k \<and> end_row k \<le> er \<and> wf_rows k) ks
      \<and> sorted_wrt (\<lambda>a b. end_row a \<le> start_row b) ks)"

text \<open>A cursor of the tree with root \<^verbatim>\<open>root\<close>: every step of its chain is a child step.\<close>

fun chain_ok :: "node \<Rightarrow> node \<Rightarrow> (nat \<times> node) list \<Rightarrow> bool" where
  "chain_ok root n [] = (n = root)"
| "chain_ok root n ((i, p) # fs) =
     (i < length (children p) \<and> children p ! i = n \<and> chain_ok root p fs)"

definition in_tree :: "node \<Rightarrow> cursor \<Rightarrow> bool" where
  "in_tree root c = chain_ok root (cnode c) (ctx c)"

text \<open>The captured nodes of a query are nodes of the tree it ran on.\<close>

definition captures_in_tree :: "engine \<Rightarrow> string \<Rightarrow> node \<Rightarrow> bool" where
  "captures_in_tree E query root =
     list_all (\<lambda>entry. list_all (in_tree root) (snd entry)) (run_query E query root)"

section \<open>Sample trees\<close>

text \<open>A directive broken over two lines: the keyword on the first, the literal on the second.\<close>

definition dir_source :: string where
  "dir_source =
     (''import'' @ [CHR 0x0A] @ ''    '' @ [CHR 0x27] @ ''package:pkg/lib.dart'' @ [CHR 0x27] @ '';'')"

definition dir_lit :: node where
  "dir_lit =
     Node ''string_literal'' True None 11 33 1 1 ([CHR 0x27] @ ''package:pkg/lib.dart'' @ [CHR 0x27]) []"

definition dir_uri :: node where
  "dir_uri =
     Node ''uri'' True None 11 33 1 1 ([CHR 0x27] @ ''package:pkg/lib.dart'' @ [CHR 0x27])
        [dir_lit]"

definition dir_cfg :: node where
  "dir_cfg =
     Node ''configurable_uri'' True None 11 33 1 1 ([CHR 0x27] @ ''package:pkg/lib.dart'' @ [CHR 0x27])
        [dir_uri]"

definition dir_spec :: node where
  "dir_spec =
     Node ''import_specification'' True None 0 34 0 1 (''import'' @ [CHR 0x0A] @ ''    '' @ [CHR 0x27] @ ''package:pkg/lib.dart'' @ [CHR 0x27] @ '';'')
        [(Node ''import'' False None 0 6 0 0 ''import'' []),
         dir_cfg,
         (Node '';'' False None 33 34 1 1 '';'' [])]"

definition dir_lib :: node where
  "dir_lib =
     Node ''library_import'' True None 0 34 0 1 (''import'' @ [CHR 0x0A] @ ''    '' @ [CHR 0x27] @ ''package:pkg/lib.dart'' @ [CHR 0x27] @ '';'')
        [dir_spec]"

definition dir_node :: node where
  "dir_node =
     Node ''import_or_export'' True None 0 34 0 1 (''import'' @ [CHR 0x0A] @ ''    '' @ [CHR 0x27] @ ''package:pkg/lib.dart'' @ [CHR 0x27] @ '';'')
        [dir_lib]"

definition dir_root :: node where
  "dir_root =
     Node ''program'' True None 0 34 0 1 (''import'' @ [CHR 0x0A] @ ''    '' @ [CHR 0x27] @ ''package:pkg/lib.dart'' @ [CHR 0x27] @ '';'')
        [dir_node]"

definition dir_lit_c :: cursor where
  "dir_lit_c =
     Cursor dir_lit [(0, dir_uri), (0, dir_cfg), (1, dir_spec), (0, dir_lib), (0, dir_node), (0, dir_root)]"

text \<open>A small library: an import, and a class with one documented method.\<close>

definition lib_source :: string where
  "lib_source =
     (''import '' @ [CHR 0x27] @ ''a.dart'' @ [CHR 0x27] @ '';'' @ [CHR 0x0A] @ ''class A {'' @ [CHR 0x0A] @ ''  /// Doc.'' @ [CHR 0x0A] @ ''  int f() {'' @ [CHR 0x0A] @ ''    return 1;'' @ [CHR 0x0A] @ ''  }'' @ [CHR 0x0A] @ ''}'')"

definition lib_lit :: node where
  "lib_lit =
     Node ''string_literal'' True None 7 15 0 0 ([CHR 0x27] @ ''a.dart'' @ [CHR 0x27]) []"

definition lib_uri :: node where
  "lib_uri =
     Node ''uri'' True None 7 15 0 0 ([CHR 0x27] @ ''a.dart'' @ [CHR 0x27])
        [lib_lit]"

definition lib_cfg :: node where
  "lib_cfg =
     Node ''configurable_uri'' True None 7 15 0 0 ([CHR 0x27] @ ''a.dart'' @ [CHR 0x27])
        [lib_uri]"

definition lib_spec :: node where
  "lib_spec =
     Node ''import_specification'' True None 0 16 0 0 (''import '' @ [CHR 0x27] @ ''a.dart'' @ [CHR 0x27] @ '';'')
        [(Node ''import'' False None 0 6 0 0 ''import'' []),
         lib_cfg,
         (Node '';'' False None 15 16 0 0 '';'' [])]"

definition lib_import :: node where
  "lib_import =
     Node ''library_import'' True None 0 16 0 0 (''import '' @ [CHR 0x27] @ ''a.dart'' @ [CHR 0x27] @ '';'')
        [lib_spec]"

definition lib_dir :: node where
  "lib_dir =
     Node ''import_or_export'' True None 0 16 0 0 (''import '' @ [CHR 0x27] @ ''a.dart'' @ [CHR 0x27] @ '';'')
        [lib_import]"

definition lib_cname :: node where
  "lib_cname =
     Node ''identifier'' True (Some ''name'') 23 24 1 1 ''A'' []"

definition lib_doc :: node where
  "lib_doc =
     Node ''comment'' True None 29 37 2 2 ''/// Doc.'' []"

definition lib_fname :: node where
  "lib_fname =
     Node ''identifier'' True (Some ''name'') 44 45 3 3 ''f'' []"

definition lib_params :: node where
  "lib_params =
     Node ''formal_parameter_list'' True None 45 47 3 3 ''()''
        [(Node ''('' False None 45 46 3 3 ''('' []),
         (Node '')'' False None 46 47 3 3 '')'' [])]"

definition lib_sig :: node where
  "lib_sig =
     Node ''function_signature'' True None 40 47 3 3 ''int f()''
        [(Node ''type_identifier'' True None 40 43 3 3 ''int'' []),
         lib_fname,
         lib_params]"

definition lib_method :: node where
  "lib_method =
     Node ''method_signature'' True None 40 47 3 3 ''int f()''
        [lib_sig]"

definition lib_body :: node where
  "lib_body =
     Node ''function_body'' True None 48 67 3 5 (''{'' @ [CHR 0x0A] @ ''    return 1;'' @ [CHR 0x0A] @ ''  }'')
        [(Node ''block'' True None 48 67 3 5 (''{'' @ [CHR 0x0A] @ ''    return 1;'' @ [CHR 0x0A] @ ''  }'')
            [(Node ''{'' False None 48 49 3 3 ''{'' []),
             (Node ''return_statement'' True None 54 63 4 4 ''return 1;''
                [(Node ''return'' False None 54 60 4 4 ''return'' []),
                 (Node ''decimal_integer_literal'' True None 61 62 4 4 ''1'' []),
                 (Node '';'' False None 62 63 4 4 '';'' [])]),
             (Node ''}'' False None 66 67 5 5 ''}'' [])])]"

definition lib_cbody :: node where
  "lib_cbody =
     Node ''class_body'' True None 25 69 1 6 (''{'' @ [CHR 0x0A] @ ''  /// Doc.'' @ [CHR 0x0A] @ ''  int f() {'' @ [CHR 0x0A] @ ''    return 1;'' @ [CHR 0x0A] @ ''  }'' @ [CHR 0x0A] @ ''}'')
        [(Node ''{'' False None 25 26 1 1 ''{'' []),
         lib_doc,
         lib_method,
         lib_body,
         (Node ''}'' False None 68 69 6 6 ''}'' [])]"

definition lib_class :: node where
  "lib_class =
     Node ''class_definition'' True None 17 69 1 6 (''class A {'' @ [CHR 0x0A] @ ''  /// Doc.'' @ [CHR 0x0A] @ ''  int f() {'' @ [CHR 0x0A] @ ''    return 1;'' @ [CHR 0x0A] @ ''  }'' @ [CHR 0x0A] @ ''}'')
        [(Node ''class'' False None 17 22 1 1 ''class'' []),
         lib_cname,
         lib_cbody]"

definition lib_root :: node where
  "lib_root =
     Node ''program'' True None 0 69 0 6 (''import '' @ [CHR 0x27] @ ''a.dart'' @ [CHR 0x27] @ '';'' @ [CHR 0x0A] @ ''class A {'' @ [CHR 0x0A] @ ''  /// Doc.'' @ [CHR 0x0A] @ ''  int f() {'' @ [CHR 0x0A] @ ''    return 1;'' @ [CHR 0x0A] @ ''  }'' @ [CHR 0x0A] @ ''}'')
        [lib_dir,
         lib_class]"

definition lib_lit_c :: cursor where
  "lib_lit_c =
     Cursor lib_lit [(0, lib_uri), (0, lib_cfg), (1, lib_spec), (0, lib_import), (0, lib_dir), (0, lib_root)]"

definition lib_class_c :: cursor where
  "lib_class_c =
     Cursor lib_class [(1, lib_root)]"

definition lib_cname_c :: cursor where
  "lib_cname_c =
     Cursor lib_cname [(1, lib_class), (1, lib_root)]"

definition lib_sig_c :: cursor where
  "lib_sig_c =
     Cursor lib_sig [(0, lib_method), (2, lib_cbody), (2, lib_class), (1, lib_root)]"

definition lib_fname_c :: cursor where
  "lib_fname_c =
     Cursor lib_fname [(1, lib_sig), (0, lib_method), (2, lib_cbody), (2, lib_class), (1, lib_root)]"

definition lib_params_c :: cursor where
  "lib_params_c =
     Cursor lib_params [(2, lib_sig), (0, lib_method), (2, lib_cbody), (2, lib_class), (1, lib_root)]"

text \<open>A class with the named constructor \<^verbatim>\<open>Type.named(int x)\<close>, its typed parameter a direct child of the parameter list.\<close>

definition ctor_source :: string where
  "ctor_source =
     (''class Type {'' @ [CHR 0x0A] @ ''  Type.named(int x);'' @ [CHR 0x0A] @ ''}'')"

definition ctor_id_type :: node where
  "ctor_id_type =
     Node ''identifier'' True (Some ''name'') 15 19 1 1 ''Type'' []"

definition ctor_id_named :: node where
  "ctor_id_named =
     Node ''identifier'' True (Some ''name'') 20 25 1 1 ''named'' []"

definition ctor_param :: node where
  "ctor_param =
     Node ''normal_formal_parameter'' True None 26 31 1 1 ''int x''
        [(Node ''type_identifier'' True None 26 29 1 1 ''int'' []),
         (Node ''identifier'' True (Some ''name'') 30 31 1 1 ''x'' [])]"

definition ctor_params :: node where
  "ctor_params =
     Node ''formal_parameter_list'' True None 25 32 1 1 ''(int x)''
        [(Node ''('' False None 25 26 1 1 ''('' []),
         ctor_param,
         (Node '')'' False None 31 32 1 1 '')'' [])]"

definition ctor_sig :: node where
  "ctor_sig =
     Node ''constructor_signature'' True None 15 32 1 1 ''Type.named(int x)''
        [ctor_id_type,
         (Node ''.'' False None 19 20 1 1 ''.'' []),
         ctor_id_named,
         ctor_params]"

definition ctor_decl :: node where
  "ctor_decl =
     Node ''declaration'' True None 15 32 1 1 ''Type.named(int x)''
        [ctor_sig]"

definition ctor_cbody :: node where
  "ctor_cbody =
     Node ''class_body'' True None 11 35 0 2 (''{'' @ [CHR 0x0A] @ ''  Type.named(int x);'' @ [CHR 0x0A] @ ''}'')
        [(Node ''{'' False None 11 12 0 0 ''{'' []),
         ctor_decl,
         (Node '';'' False None 32 33 1 1 '';'' []),
         (Node ''}'' False None 34 35 2 2 ''}'' [])]"

definition ctor_class :: node where
  "ctor_class =
     Node ''class_definition'' True None 0 35 0 2 (''class Type {'' @ [CHR 0x0A] @ ''  Type.named(int x);'' @ [CHR 0x0A] @ ''}'')
        [(Node ''class'' False None 0 5 0 0 ''class'' []),
         (Node ''identifier'' True (Some ''name'') 6 10 0 0 ''Type'' []),
         ctor_cbody]"

definition ctor_root :: node where
  "ctor_root =
     Node ''program'' True None 0 35 0 2 (''class Type {'' @ [CHR 0x0A] @ ''  Type.named(int x);'' @ [CHR 0x0A] @ ''}'')
        [ctor_class]"

definition ctor_sig_c :: cursor where
  "ctor_sig_c =
     Cursor ctor_sig [(0, ctor_decl), (1, ctor_cbody), (2, ctor_class), (0, ctor_root)]"

definition ctor_id_type_c :: cursor where
  "ctor_id_type_c =
     Cursor ctor_id_type [(0, ctor_sig), (0, ctor_decl), (1, ctor_cbody), (2, ctor_class), (0, ctor_root)]"

definition ctor_id_named_c :: cursor where
  "ctor_id_named_c =
     Cursor ctor_id_named [(2, ctor_sig), (0, ctor_decl), (1, ctor_cbody), (2, ctor_class), (0, ctor_root)]"

definition ctor_params_c :: cursor where
  "ctor_params_c =
     Cursor ctor_params [(3, ctor_sig), (0, ctor_decl), (1, ctor_cbody), (2, ctor_class), (0, ctor_root)]"

text \<open>A top-level function whose signature holds a conditional expression (a default value) and whose body holds no decision point.\<close>

definition pick_source :: string where
  "pick_source =
     (''int pick([int x = a ? 1 : 2]) {'' @ [CHR 0x0A] @ ''  return x;'' @ [CHR 0x0A] @ ''}'')"

definition pick_name :: node where
  "pick_name =
     Node ''identifier'' True (Some ''name'') 4 8 0 0 ''pick'' []"

definition pick_params :: node where
  "pick_params =
     Node ''formal_parameter_list'' True None 8 29 0 0 ''([int x = a ? 1 : 2])''
        [(Node ''('' False None 8 9 0 0 ''('' []),
         (Node ''optional_formal_parameters'' True None 9 28 0 0 ''[int x = a ? 1 : 2]''
            [(Node ''['' False None 9 10 0 0 ''['' []),
             (Node ''formal_parameter'' True None 10 27 0 0 ''int x = a ? 1 : 2''
                [(Node ''type_identifier'' True None 10 13 0 0 ''int'' []),
                 (Node ''identifier'' True (Some ''name'') 14 15 0 0 ''x'' []),
                 (Node ''='' False None 16 17 0 0 ''='' []),
                 (Node ''conditional_expression'' True None 18 27 0 0 ''a ? 1 : 2''
                    [(Node ''identifier'' True None 18 19 0 0 ''a'' []),
                     (Node ''?'' False None 20 21 0 0 ''?'' []),
                     (Node ''decimal_integer_literal'' True None 22 23 0 0 ''1'' []),
                     (Node '':'' False None 24 25 0 0 '':'' []),
                     (Node ''decimal_integer_literal'' True None 26 27 0 0 ''2'' [])])]),
             (Node '']'' False None 27 28 0 0 '']'' [])]),
         (Node '')'' False None 28 29 0 0 '')'' [])]"

definition pick_sig :: node where
  "pick_sig =
     Node ''function_signature'' True None 0 29 0 0 ''int pick([int x = a ? 1 : 2])''
        [(Node ''type_identifier'' True None 0 3 0 0 ''int'' []),
         pick_name,
         pick_params]"

definition pick_body :: node where
  "pick_body =
     Node ''function_body'' True None 30 45 0 2 (''{'' @ [CHR 0x0A] @ ''  return x;'' @ [CHR 0x0A] @ ''}'')
        [(Node ''block'' True None 30 45 0 2 (''{'' @ [CHR 0x0A] @ ''  return x;'' @ [CHR 0x0A] @ ''}'')
            [(Node ''{'' False None 30 31 0 0 ''{'' []),
             (Node ''return_statement'' True None 34 43 1 1 ''return x;''
                [(Node ''return'' False None 34 40 1 1 ''return'' []),
                 (Node ''identifier'' True None 41 42 1 1 ''x'' []),
                 (Node '';'' False None 42 43 1 1 '';'' [])]),
             (Node ''}'' False None 44 45 2 2 ''}'' [])])]"

definition pick_root :: node where
  "pick_root =
     Node ''program'' True None 0 45 0 2 (''int pick([int x = a ? 1 : 2]) {'' @ [CHR 0x0A] @ ''  return x;'' @ [CHR 0x0A] @ ''}'')
        [pick_sig,
         pick_body]"

definition pick_sig_c :: cursor where
  "pick_sig_c =
     Cursor pick_sig [(0, pick_root)]"

definition pick_name_c :: cursor where
  "pick_name_c =
     Cursor pick_name [(1, pick_sig), (0, pick_root)]"

definition pick_params_c :: cursor where
  "pick_params_c =
     Cursor pick_params [(2, pick_sig), (0, pick_root)]"

text \<open>An extension that has no name.\<close>

definition ext_source :: string where
  "ext_source =
     (''extension on int {'' @ [CHR 0x0A] @ ''}'')"

definition ext_node :: node where
  "ext_node =
     Node ''extension_declaration'' True None 0 20 0 1 (''extension on int {'' @ [CHR 0x0A] @ ''}'')
        [(Node ''extension'' False None 0 9 0 0 ''extension'' []),
         (Node ''on'' False None 10 12 0 0 ''on'' []),
         (Node ''type_identifier'' True None 13 16 0 0 ''int'' []),
         (Node ''extension_body'' True None 17 20 0 1 (''{'' @ [CHR 0x0A] @ ''}'')
            [(Node ''{'' False None 17 18 0 0 ''{'' []),
             (Node ''}'' False None 19 20 1 1 ''}'' [])])]"

definition ext_root :: node where
  "ext_root =
     Node ''program'' True None 0 20 0 1 (''extension on int {'' @ [CHR 0x0A] @ ''}'')
        [ext_node]"

definition ext_node_c :: cursor where
  "ext_node_c =
     Cursor ext_node [(0, ext_root)]"

text \<open>A signature from which no name can be derived, followed by a well-formed function.\<close>

definition anon_source :: string where
  "anon_source =
     (''void () {}'' @ [CHR 0x0A] @ ''void g() {}'')"

definition anon_sig :: node where
  "anon_sig =
     Node ''function_signature'' True None 0 7 0 0 ''void ()''
        [(Node ''void_type'' True None 0 4 0 0 ''void'' []),
         (Node ''formal_parameter_list'' True None 5 7 0 0 ''()''
            [(Node ''('' False None 5 6 0 0 ''('' []),
             (Node '')'' False None 6 7 0 0 '')'' [])])]"

definition good_name :: node where
  "good_name =
     Node ''identifier'' True (Some ''name'') 16 17 1 1 ''g'' []"

definition good_params :: node where
  "good_params =
     Node ''formal_parameter_list'' True None 17 19 1 1 ''()''
        [(Node ''('' False None 17 18 1 1 ''('' []),
         (Node '')'' False None 18 19 1 1 '')'' [])]"

definition good_sig :: node where
  "good_sig =
     Node ''function_signature'' True None 11 19 1 1 ''void g()''
        [(Node ''void_type'' True None 11 15 1 1 ''void'' []),
         good_name,
         good_params]"

definition good_body :: node where
  "good_body =
     Node ''function_body'' True None 20 22 1 1 ''{}''
        [(Node ''block'' True None 20 22 1 1 ''{}''
            [(Node ''{'' False None 20 21 1 1 ''{'' []),
             (Node ''}'' False None 21 22 1 1 ''}'' [])])]"

definition anon_root :: node where
  "anon_root =
     Node ''program'' True None 0 22 0 1 (''void () {}'' @ [CHR 0x0A] @ ''void g() {}'')
        [anon_sig,
         (Node ''function_body'' True None 8 10 0 0 ''{}''
            [(Node ''block'' True None 8 10 0 0 ''{}''
                [(Node ''{'' False None 8 9 0 0 ''{'' []),
                 (Node ''}'' False None 9 10 0 0 ''}'' [])])]),
         good_sig,
         good_body]"

definition anon_sig_c :: cursor where
  "anon_sig_c =
     Cursor anon_sig [(0, anon_root)]"

definition good_sig_c :: cursor where
  "good_sig_c =
     Cursor good_sig [(2, anon_root)]"

definition good_name_c :: cursor where
  "good_name_c =
     Cursor good_name [(1, good_sig), (2, anon_root)]"

definition good_params_c :: cursor where
  "good_params_c =
     Cursor good_params [(2, good_sig), (2, anon_root)]"

text \<open>Two files that both declare a symbol \<^verbatim>\<open>Foo\<close>.\<close>

definition foo_a_source :: string where
  "foo_a_source =
     ''class Foo {}''"

definition foo_a_name :: node where
  "foo_a_name =
     Node ''identifier'' True (Some ''name'') 6 9 0 0 ''Foo'' []"

definition foo_a_class :: node where
  "foo_a_class =
     Node ''class_definition'' True None 0 12 0 0 ''class Foo {}''
        [(Node ''class'' False None 0 5 0 0 ''class'' []),
         foo_a_name,
         (Node ''class_body'' True None 10 12 0 0 ''{}''
            [(Node ''{'' False None 10 11 0 0 ''{'' []),
             (Node ''}'' False None 11 12 0 0 ''}'' [])])]"

definition foo_a_root :: node where
  "foo_a_root =
     Node ''program'' True None 0 12 0 0 ''class Foo {}''
        [foo_a_class]"

definition foo_a_name_c :: cursor where
  "foo_a_name_c =
     Cursor foo_a_name [(1, foo_a_class), (0, foo_a_root)]"

definition foo_b_source :: string where
  "foo_b_source =
     ''enum Foo { one }''"

definition foo_b_name :: node where
  "foo_b_name =
     Node ''identifier'' True (Some ''name'') 5 8 0 0 ''Foo'' []"

definition foo_b_enum :: node where
  "foo_b_enum =
     Node ''enum_declaration'' True None 0 16 0 0 ''enum Foo { one }''
        [(Node ''enum'' False None 0 4 0 0 ''enum'' []),
         foo_b_name,
         (Node ''enum_body'' True None 9 16 0 0 ''{ one }''
            [(Node ''{'' False None 9 10 0 0 ''{'' []),
             (Node ''enum_constant'' True None 11 14 0 0 ''one''
                [(Node ''identifier'' True (Some ''name'') 11 14 0 0 ''one'' [])]),
             (Node ''}'' False None 15 16 0 0 ''}'' [])])]"

definition foo_b_root :: node where
  "foo_b_root =
     Node ''program'' True None 0 16 0 0 ''enum Foo { one }''
        [foo_b_enum]"

definition foo_b_name_c :: cursor where
  "foo_b_name_c =
     Cursor foo_b_name [(1, foo_b_enum), (0, foo_b_root)]"

text \<open>The engines of the samples: what the queries capture on each tree.\<close>

definition dir_engine :: engine where
  "dir_engine =
     \<lparr>compiles = (\<lambda>name. True),
      run_query = (\<lambda>query root.
         if query = ''imports'' \<and> root = dir_root then [(''path'', [dir_lit_c])] else []),
      ts_parse = (\<lambda>src. if src = dir_source then Some dir_root else None)\<rparr>"

definition lib_engine :: engine where
  "lib_engine =
     \<lparr>compiles = (\<lambda>name. True),
      run_query = (\<lambda>query root.
         if query = ''functions''
         then [(''function_node'', [lib_sig_c]), (''name'', [lib_fname_c]),
               (''params'', [lib_params_c])]
         else if query = ''classes'' then [(''class'', [lib_class_c]), (''name'', [lib_cname_c])]
         else if query = ''imports'' then [(''path'', [lib_lit_c])]
         else []),
      ts_parse = (\<lambda>src. if src = lib_source then Some lib_root else None)\<rparr>"

definition lib_read_text :: "string \<Rightarrow> string option" where
  "lib_read_text path = (if path = ''lib/a.dart'' then Some lib_source else None)"

definition ctor_engine :: engine where
  "ctor_engine =
     \<lparr>compiles = (\<lambda>name. True),
      run_query = (\<lambda>query root.
         if query = ''functions''
         then [(''function_node'', [ctor_sig_c]), (''name'', [ctor_id_type_c, ctor_id_named_c]),
               (''params'', [ctor_params_c])]
         else []),
      ts_parse = (\<lambda>src. if src = ctor_source then Some ctor_root else None)\<rparr>"

definition pick_engine :: engine where
  "pick_engine =
     \<lparr>compiles = (\<lambda>name. True),
      run_query = (\<lambda>query root.
         if query = ''functions''
         then [(''function_node'', [pick_sig_c]), (''name'', [pick_name_c]),
               (''params'', [pick_params_c])]
         else []),
      ts_parse = (\<lambda>src. if src = pick_source then Some pick_root else None)\<rparr>"

definition ext_engine :: engine where
  "ext_engine =
     \<lparr>compiles = (\<lambda>name. True),
      run_query = (\<lambda>query root.
         if query = ''classes'' then [(''class'', [ext_node_c])] else []),
      ts_parse = (\<lambda>src. if src = ext_source then Some ext_root else None)\<rparr>"

definition anon_engine :: engine where
  "anon_engine =
     \<lparr>compiles = (\<lambda>name. True),
      run_query = (\<lambda>query root.
         if query = ''functions''
         then [(''function_node'', [anon_sig_c, good_sig_c]), (''name'', [good_name_c]),
               (''params'', [good_params_c])]
         else []),
      ts_parse = (\<lambda>src. if src = anon_source then Some anon_root else None)\<rparr>"

definition anon_read_text :: "string \<Rightarrow> string option" where
  "anon_read_text path = (if path = ''lib/anon.dart'' then Some anon_source else None)"

definition foo_engine :: engine where
  "foo_engine =
     \<lparr>compiles = (\<lambda>name. True),
      run_query = (\<lambda>query root.
         if query = ''pre_scan'' \<and> root = foo_a_root then [(''name'', [foo_a_name_c])]
         else if query = ''pre_scan'' \<and> root = foo_b_root then [(''name'', [foo_b_name_c])]
         else []),
      ts_parse = (\<lambda>src. if src = foo_a_source then Some foo_a_root
                         else if src = foo_b_source then Some foo_b_root else None)\<rparr>"

definition foo_read_text :: "string \<Rightarrow> string option" where
  "foo_read_text path =
     (if path = ''lib/a.dart'' then Some foo_a_source
      else if path = ''lib/b.dart'' then Some foo_b_source else None)"

definition foo_resolve :: "string \<Rightarrow> string" where
  "foo_resolve path = ''/repo/'' @ path"

text \<open>What the extractor returns on the small library, called with the flag set.\<close>

definition lib_record :: file_record where
  "lib_record =
     \<lparr>fr_file_path = ''lib/a.dart'',
      fr_functions =
        [\<lparr>fn_name = ''f'', fn_line_number = 4, fn_end_line = 6, fn_args = [],
          fn_source = ''int f()'' @ [CHR 0x0A] @ ntext lib_body,
          fn_source_code = ''int f()'' @ [CHR 0x0A] @ ntext lib_body,
          fn_docstring = Some ''/// Doc.'', fn_cyclomatic_complexity = 1, fn_context = None,
          fn_context_type = None, fn_class_context = None, fn_decorators = [],
          fn_lang = ''dart'', fn_is_dependency = False\<rparr>],
      fr_classes =
        [\<lparr>cl_name = ''A'', cl_line_number = 2, cl_end_line = 7, cl_bases = [],
          cl_source = ntext lib_class, cl_docstring = None, cl_context = None,
          cl_decorators = [], cl_lang = ''dart'', cl_is_dependency = False\<rparr>],
      fr_variables = [],
      fr_imports =
        [\<lparr>im_name = ''a.dart'', im_full_import_name = ''a.dart'', im_line_number = 1,
          im_alias = None, im_lang = ''dart'', im_is_dependency = False\<rparr>],
      fr_function_calls = [],
      fr_is_dependency = True,
      fr_lang = ''dart''\<rparr>"

text \<open>The bucket and the body of the function \<^verbatim>\<open>pick\<close>.\<close>

definition pick_bucket :: bucket_entry where
  "pick_bucket =
     \<lparr>b_signature = pick_sig_c, b_name = Some ''pick'', b_params = Some pick_params_c\<rparr>"

definition pick_body_c :: cursor where
  "pick_body_c = Cursor pick_body [(1, pick_root)]"

definition pick_entity :: function_entity where
  "pick_entity =
     \<lparr>fn_name = ''pick'', fn_line_number = 1, fn_end_line = 3, fn_args = [],
      fn_source = ntext pick_sig @ [CHR 0x0A] @ ntext pick_body,
      fn_source_code = ntext pick_sig @ [CHR 0x0A] @ ntext pick_body,
      fn_docstring = None, fn_cyclomatic_complexity = 1, fn_context = None,
      fn_context_type = None, fn_class_context = None, fn_decorators = [],
      fn_lang = ''dart'', fn_is_dependency = False\<rparr>"

text \<open>The bucket, the wrapper, the comment and the entity of the method \<^verbatim>\<open>f\<close>.\<close>

definition lib_bucket :: bucket_entry where
  "lib_bucket =
     \<lparr>b_signature = lib_sig_c, b_name = Some ''f'', b_params = Some lib_params_c\<rparr>"

definition lib_method_c :: cursor where
  "lib_method_c = Cursor lib_method [(2, lib_cbody), (2, lib_class), (1, lib_root)]"

definition lib_doc_c :: cursor where
  "lib_doc_c = Cursor lib_doc [(1, lib_cbody), (2, lib_class), (1, lib_root)]"

definition lib_function :: function_entity where
  "lib_function =
     \<lparr>fn_name = ''f'', fn_line_number = 4, fn_end_line = 6, fn_args = [],
      fn_source = ''int f()'' @ [CHR 0x0A] @ ntext lib_body,
      fn_source_code = ''int f()'' @ [CHR 0x0A] @ ntext lib_body,
      fn_docstring = Some ''/// Doc.'', fn_cyclomatic_complexity = 1, fn_context = None,
      fn_context_type = None, fn_class_context = None, fn_decorators = [],
      fn_lang = ''dart'', fn_is_dependency = False\<rparr>"

text \<open>The buckets of the file with the nameless signature, and the entity of \<^verbatim>\<open>g\<close>.\<close>

definition anon_bucket :: bucket_entry where
  "anon_bucket = \<lparr>b_signature = anon_sig_c, b_name = None, b_params = None\<rparr>"

definition good_bucket :: bucket_entry where
  "good_bucket =
     \<lparr>b_signature = good_sig_c, b_name = Some ''g'', b_params = Some good_params_c\<rparr>"

definition good_entity :: function_entity where
  "good_entity =
     \<lparr>fn_name = ''g'', fn_line_number = 2, fn_end_line = 2, fn_args = [],
      fn_source = ''void g()'' @ [CHR 0x0A] @ ''{}'',
      fn_source_code = ''void g()'' @ [CHR 0x0A] @ ''{}'',
      fn_docstring = None, fn_cyclomatic_complexity = 1, fn_context = None,
      fn_context_type = None, fn_class_context = None, fn_decorators = [],
      fn_lang = ''dart'', fn_is_dependency = False\<rparr>"

text \<open>
  The same class, with the typed parameter under a node of type \<^verbatim>\<open>formal_parameter\<close>,
  a type the extractor does not list.
\<close>

definition alt_id_type :: node where
  "alt_id_type =
     Node ''identifier'' True (Some ''name'') 15 19 1 1 ''Type'' []"

definition alt_id_named :: node where
  "alt_id_named =
     Node ''identifier'' True (Some ''name'') 20 25 1 1 ''named'' []"

definition alt_param :: node where
  "alt_param =
     Node ''formal_parameter'' True None 26 31 1 1 ''int x''
        [(Node ''type_identifier'' True None 26 29 1 1 ''int'' []),
         (Node ''identifier'' True (Some ''name'') 30 31 1 1 ''x'' [])]"

definition alt_params :: node where
  "alt_params =
     Node ''formal_parameter_list'' True None 25 32 1 1 ''(int x)''
        [(Node ''('' False None 25 26 1 1 ''('' []),
         alt_param,
         (Node '')'' False None 31 32 1 1 '')'' [])]"

definition alt_sig :: node where
  "alt_sig =
     Node ''constructor_signature'' True None 15 32 1 1 ''Type.named(int x)''
        [alt_id_type,
         (Node ''.'' False None 19 20 1 1 ''.'' []),
         alt_id_named,
         alt_params]"

definition alt_decl :: node where
  "alt_decl =
     Node ''declaration'' True None 15 32 1 1 ''Type.named(int x)''
        [alt_sig]"

definition alt_cbody :: node where
  "alt_cbody =
     Node ''class_body'' True None 11 35 0 2 (''{'' @ [CHR 0x0A] @ ''  Type.named(int x);'' @ [CHR 0x0A] @ ''}'')
        [(Node ''{'' False None 11 12 0 0 ''{'' []),
         alt_decl,
         (Node '';'' False None 32 33 1 1 '';'' []),
         (Node ''}'' False None 34 35 2 2 ''}'' [])]"

definition alt_class :: node where
  "alt_class =
     Node ''class_definition'' True None 0 35 0 2 (''class Type {'' @ [CHR 0x0A] @ ''  Type.named(int x);'' @ [CHR 0x0A] @ ''}'')
        [(Node ''class'' False None 0 5 0 0 ''class'' []),
         (Node ''identifier'' True (Some ''name'') 6 10 0 0 ''Type'' []),
         alt_cbody]"

definition alt_root :: node where
  "alt_root =
     Node ''program'' True None 0 35 0 2 (''class Type {'' @ [CHR 0x0A] @ ''  Type.named(int x);'' @ [CHR 0x0A] @ ''}'')
        [alt_class]"

definition alt_sig_c :: cursor where
  "alt_sig_c =
     Cursor alt_sig [(0, alt_decl), (1, alt_cbody), (2, alt_class), (0, alt_root)]"

definition alt_id_type_c :: cursor where
  "alt_id_type_c =
     Cursor alt_id_type [(0, alt_sig), (0, alt_decl), (1, alt_cbody), (2, alt_class), (0, alt_root)]"

definition alt_id_named_c :: cursor where
  "alt_id_named_c =
     Cursor alt_id_named [(2, alt_sig), (0, alt_decl), (1, alt_cbody), (2, alt_class), (0, alt_root)]"

definition alt_params_c :: cursor where
  "alt_params_c =
     Cursor alt_params [(3, alt_sig), (0, alt_decl), (1, alt_cbody), (2, alt_class), (0, alt_root)]"

definition alt_engine :: engine where
  "alt_engine =
     \<lparr>compiles = (\<lambda>name. True),
      run_query = (\<lambda>query root.
         if query = ''functions''
         then [(''function_node'', [alt_sig_c]), (''name'', [alt_id_type_c, alt_id_named_c]),
               (''params'', [alt_params_c])]
         else []),
      ts_parse = (\<lambda>src. if src = ctor_source then Some alt_root else None)\<rparr>"

section \<open>Reading failures\<close>

text \<open>
  C6.  When the contents of the file cannot be read, \<^verbatim>\<open>parse\<close> does not raise: it returns
  a record that holds the file path, the caller's \<^verbatim>\<open>is_dependency\<close> flag, the language tag
  and an empty list for functions, classes, variables, imports and function calls.
\<close>

theorem parse_unreadable_file:
  assumes "read_text path = None"
  shows "parse E read_text path dep =
           Inr \<lparr>fr_file_path = path, fr_functions = [], fr_classes = [], fr_variables = [],
                fr_imports = [], fr_function_calls = [], fr_is_dependency = dep,
                fr_lang = ''dart''\<rparr>"
  using assms by (simp add: parse_def language_name_def)

theorem parse_unreadable_file_witness:
  "lib_read_text ''lib/missing.dart'' = None
   \<and> parse lib_engine lib_read_text ''lib/missing.dart'' True =
       Inr \<lparr>fr_file_path = ''lib/missing.dart'', fr_functions = [], fr_classes = [],
            fr_variables = [], fr_imports = [], fr_function_calls = [],
            fr_is_dependency = True, fr_lang = ''dart''\<rparr>"
proof -
  have unreadable: "lib_read_text ''lib/missing.dart'' = None"
    by (simp add: lib_read_text_def)
  from parse_unreadable_file [where read_text = lib_read_text and path = "''lib/missing.dart''"
      and E = lib_engine and dep = True, OF unreadable] unreadable
  show ?thesis by simp
qed

section \<open>Imports\<close>

text \<open>
  C3.  The line of an import record is the starting line of the literal's parent node.  In
  the import patterns that parent is the \<^verbatim>\<open>uri\<close> node, not the directive: for the directive
  that starts on line 1 and has its literal on line 2, the record carries line 2, while the
  enclosing directive starts on line 1.
\<close>

theorem import_line_is_parent_line:
  "map im_line_number (find_imports dir_engine dir_root) = [2]
   \<and> spec_directive_line dir_lit_c = Some 1"
  by code_simp

section \<open>Functions: from the output back to the buckets\<close>

lemma function_buckets_Nil: "function_buckets [] = []"
  by (simp add: function_buckets_def)

lemma find_functions_eq:
  "find_functions E root = emit_functions (function_buckets (captures E ''functions'' root))"
  by (simp add: find_functions_def Let_def function_buckets_Nil emit_functions_def
      List.map_filter_simps)

lemma emit_functions_mem:
  "e \<in> set (emit_functions infos) \<longleftrightarrow> (\<exists>info \<in> set infos. function_of_bucket info = Some e)"
  by (induction infos) (auto simp: emit_functions_def List.map_filter_simps split: option.splits)

lemma captures_without_pattern:
  "captures E ''variables'' root = []" "captures E ''calls'' root = []"
  by (simp_all add: captures_def init_queries_def DART_QUERIES_def)

lemma find_variables_empty: "find_variables E root = []"
  by (simp add: find_variables_def captures_without_pattern)

lemma find_calls_empty: "find_calls E root = []"
  by (simp add: find_calls_def captures_without_pattern)

lemma lib_parse: "parse lib_engine lib_read_text ''lib/a.dart'' True = Inr lib_record"
  by code_simp

lemma pick_functions: "find_functions pick_engine pick_root = [pick_entity]"
  by code_simp

lemma pick_buckets: "function_buckets (captures pick_engine ''functions'' pick_root) = [pick_bucket]"
  by code_simp

lemma pick_body_of: "body_of pick_sig_c = Some pick_body_c"
  by code_simp

section \<open>The dependency flag\<close>

lemma function_of_bucket_flag:
  "function_of_bucket info = Some e \<Longrightarrow> \<not> fn_is_dependency e"
  by (auto simp: function_of_bucket_def Let_def split: option.splits)

lemma find_functions_flag: "e \<in> set (find_functions E root) \<Longrightarrow> \<not> fn_is_dependency e"
  by (auto simp: find_functions_eq emit_functions_mem dest: function_of_bucket_flag)

lemma find_classes_flag: "e \<in> set (find_classes E root) \<Longrightarrow> \<not> cl_is_dependency e"
  by (auto simp: find_classes_def class_of_capture_def)

lemma find_imports_flag: "e \<in> set (find_imports E root) \<Longrightarrow> \<not> im_is_dependency e"
  by (auto simp: find_imports_def import_of_capture_def Let_def)

text \<open>
  C9, as the claim states it, fails: called with the flag set, the extractor returns the
  flag on the file record, and \<^verbatim>\<open>False\<close> on the function, the class and the import of the
  small library.
\<close>

theorem entity_flag_counterexample:
  "(case parse lib_engine lib_read_text ''lib/a.dart'' True of
      Inl err \<Rightarrow> None
    | Inr r \<Rightarrow> Some (fr_is_dependency r, map fn_is_dependency (fr_functions r),
                     map cl_is_dependency (fr_classes r), map im_is_dependency (fr_imports r)))
   = Some (True, [False], [False], [False])"
  by code_simp

text \<open>
  C9, amended.  For every call of \<^verbatim>\<open>parse\<close> that returns a record, the record's
  \<^verbatim>\<open>is_dependency\<close> field is the caller's value; the \<^verbatim>\<open>is_dependency\<close> field of every
  function, class, variable and import entity in it is \<^verbatim>\<open>False\<close>, whatever the caller
  passed.
\<close>

theorem parse_is_dependency:
  assumes "parse E read_text path dep = Inr r"
  shows "fr_is_dependency r = dep
         \<and> (\<forall>e \<in> set (fr_functions r). \<not> fn_is_dependency e)
         \<and> (\<forall>e \<in> set (fr_classes r). \<not> cl_is_dependency e)
         \<and> (\<forall>e \<in> set (fr_variables r). \<not> va_is_dependency e)
         \<and> (\<forall>e \<in> set (fr_imports r). \<not> im_is_dependency e)"
proof (cases "read_text path")
  case None
  with assms show ?thesis by (auto simp: parse_def)
next
  case (Some source_code)
  note src = this
  show ?thesis
  proof (cases "ts_parse E source_code")
    case None
    with assms src show ?thesis by (simp add: parse_def)
  next
    case (Some root)
    with assms src have r: "r = \<lparr>fr_file_path = path,
                    fr_functions = find_functions E root,
                    fr_classes = find_classes E root,
                    fr_variables = find_variables E root,
                    fr_imports = find_imports E root,
                    fr_function_calls = find_calls E root,
                    fr_is_dependency = dep,
                    fr_lang = language_name\<rparr>"
      by (simp add: parse_def)
    show ?thesis
      unfolding r
      by (auto dest: find_functions_flag find_classes_flag find_imports_flag
          simp: find_variables_empty)
  qed
qed

theorem parse_is_dependency_witness:
  "parse lib_engine lib_read_text ''lib/a.dart'' True = Inr lib_record
   \<and> fr_is_dependency lib_record = True
   \<and> list_all (\<lambda>e. \<not> fn_is_dependency e) (fr_functions lib_record)
   \<and> list_all (\<lambda>e. \<not> cl_is_dependency e) (fr_classes lib_record)
   \<and> list_all (\<lambda>e. \<not> im_is_dependency e) (fr_imports lib_record)"
  using parse_is_dependency [OF lib_parse] lib_parse
  by (simp add: list_all_iff)

section \<open>Cyclomatic complexity\<close>

lemma decision_points_Node:
  "decision_points (Node ty nm fl sb eb sr er tx ks) =
     (if ty \<in> set complexity_nodes then 1 else 0) + sum_list (map decision_points ks)"
proof -
  have "length (filter P (concat (map nodes_of ks)))
        = sum_list (map (\<lambda>k. length (filter P (nodes_of k))) ks)" for P
    by (induction ks) auto
  then show ?thesis
    by (simp add: decision_points_def [abs_def])
qed

lemma fold_walk:
  assumes "\<And>k c. k \<in> set ks \<Longrightarrow> walk k c = c + decision_points k"
  shows "fold walk ks c = c + sum_list (map decision_points ks)"
  using assms by (induction ks arbitrary: c) auto

lemma walk_counts: "walk n c = c + decision_points n"
proof (induction n arbitrary: c)
  case (Node ty nm fl sb eb sr er tx ks)
  have "fold walk ks c' = c' + sum_list (map decision_points ks)" for c'
    by (rule fold_walk) (rule Node.IH)
  then show ?case
    by (simp add: decision_points_Node)
qed

lemma calc_complexity_counts: "calc_complexity n = 1 + decision_points n"
  by (simp add: calc_complexity_def walk_counts)

lemma function_of_bucket_complexity:
  "function_of_bucket info = Some e \<Longrightarrow>
     fn_cyclomatic_complexity e = 1 + decision_points (cnode (end_node_of (b_signature info)))"
  by (auto simp: function_of_bucket_def Let_def calc_complexity_counts split: option.splits)

text \<open>
  C2, as the claim states it, fails: the function \<^verbatim>\<open>pick\<close> has a conditional expression in
  its signature and a body; the full span (signature plus body) gives 2, the extractor
  reports 1.
\<close>

theorem complexity_full_span_counterexample:
  "map fn_cyclomatic_complexity (find_functions pick_engine pick_root) = [1]
   \<and> spec_full_span_complexity pick_sig_c = 2"
  by code_simp

text \<open>
  C2, amended.  For every function entity produced, \<^verbatim>\<open>cyclomatic_complexity\<close> is one plus
  the number of decision-point nodes in the subtree of the declaration's end node: the body
  node when a body was found, and otherwise the container.  The nodes of the signature are
  not visited when a body was found.
\<close>

theorem complexity_of_end_node:
  assumes "e \<in> set (find_functions E root)"
  shows "\<exists>info \<in> set (function_buckets (captures E ''functions'' root)).
           function_of_bucket info = Some e
           \<and> fn_cyclomatic_complexity e =
               1 + decision_points
                     (cnode (case body_of (b_signature info) of
                               Some body_node \<Rightarrow> body_node
                             | None \<Rightarrow> container_of (b_signature info)))"
proof -
  from assms obtain info where info: "info \<in> set (function_buckets (captures E ''functions'' root))"
    and e: "function_of_bucket info = Some e"
    by (auto simp: find_functions_eq emit_functions_mem)
  from function_of_bucket_complexity [OF e] have
    "fn_cyclomatic_complexity e =
       1 + decision_points
             (cnode (case body_of (b_signature info) of
                       Some body_node \<Rightarrow> body_node
                     | None \<Rightarrow> container_of (b_signature info)))"
    by (simp add: end_node_of_def)
  with info e show ?thesis by blast
qed

theorem complexity_of_end_node_witness:
  "pick_entity \<in> set (find_functions pick_engine pick_root)
   \<and> body_of pick_sig_c = Some pick_body_c
   \<and> fn_cyclomatic_complexity pick_entity = 1 + decision_points pick_body"
proof -
  have mem: "pick_entity \<in> set (find_functions pick_engine pick_root)"
    by (simp add: pick_functions)
  from complexity_of_end_node [OF mem] obtain info
    where "info \<in> set (function_buckets (captures pick_engine ''functions'' pick_root))"
      and cc: "fn_cyclomatic_complexity pick_entity =
                 1 + decision_points
                       (cnode (case body_of (b_signature info) of
                                 Some body_node \<Rightarrow> body_node
                               | None \<Rightarrow> container_of (b_signature info)))"
    by blast
  then have "info = pick_bucket"
    by (simp add: pick_buckets)
  with cc have "fn_cyclomatic_complexity pick_entity = 1 + decision_points pick_body"
    by (simp add: pick_bucket_def pick_body_of pick_body_c_def)
  with mem pick_body_of show ?thesis by simp
qed

section \<open>Classes\<close>

lemma first_identifier_find:
  "first_identifier cs = List.find (\<lambda>c. ctype c = ''identifier'') cs"
  by (induction cs) auto

lemma class_of_capture_name:
  "cl_name (class_of_capture node) =
     (case child_by_field_name node ''name'' of
        Some name_node \<Rightarrow> text_of name_node
      | None \<Rightarrow>
          (case List.find (\<lambda>c. ctype c = ''identifier'') (child_cursors node) of
             Some idn \<Rightarrow> text_of idn
           | None \<Rightarrow> ''extension''))"
  by (simp add: class_of_capture_def class_name_node_def first_identifier_find
      split: option.splits)

text \<open>
  C5.  Every capture labelled \<^verbatim>\<open>class\<close> yields exactly one class entity, in capture order.
  Its name is the text of the declaration's name field when there is one, else the text of
  the first identifier among the declaration's immediate children, else the sentinel
  \<^verbatim>\<open>extension\<close>: an extension with no identifiable name is kept under that name.
\<close>

theorem class_name_resolution:
  "length (find_classes E root) =
     length (filter (\<lambda>item. snd item = ''class'') (captures E ''classes'' root))
   \<and> (\<forall>i < length (find_classes E root).
         cl_name (find_classes E root ! i) =
           (let node = fst (filter (\<lambda>item. snd item = ''class'') (captures E ''classes'' root) ! i)
            in case child_by_field_name node ''name'' of
                 Some name_node \<Rightarrow> text_of name_node
               | None \<Rightarrow>
                   (case List.find (\<lambda>c. ctype c = ''identifier'') (child_cursors node) of
                      Some idn \<Rightarrow> text_of idn
                    | None \<Rightarrow> ''extension'')))"
  by (simp add: find_classes_def class_of_capture_name Let_def)

lemma ext_captures:
  "filter (\<lambda>item. snd item = ''class'') (captures ext_engine ''classes'' ext_root)
     = [(ext_node_c, ''class'')]"
  by code_simp

lemma ext_no_name:
  "child_by_field_name ext_node_c ''name'' = None"
  "List.find (\<lambda>c. ctype c = ''identifier'') (child_cursors ext_node_c) = None"
  by code_simp+

theorem class_name_resolution_witness:
  "child_by_field_name ext_node_c ''name'' = None
   \<and> List.find (\<lambda>c. ctype c = ''identifier'') (child_cursors ext_node_c) = None
   \<and> map cl_name (find_classes ext_engine ext_root) = [''extension'']"
proof -
  from class_name_resolution [of ext_engine ext_root]
  have len: "length (find_classes ext_engine ext_root) = 1"
    and nm: "cl_name (find_classes ext_engine ext_root ! 0) = ''extension''"
    by (simp_all add: ext_captures ext_no_name)
  from len obtain e where "find_classes ext_engine ext_root = [e]"
    by (cases "find_classes ext_engine ext_root") auto
  with nm have "map cl_name (find_classes ext_engine ext_root) = [''extension'']"
    by simp
  with ext_no_name show ?thesis by simp
qed

section \<open>The pre-scan index\<close>

lemma map_entry_distinct:
  assumes "\<forall>p \<in> set m. distinct (snd p)"
    and "\<And>ps. map_of m k = Some ps \<Longrightarrow> distinct (f ps)"
  shows "\<forall>p \<in> set (AList.map_entry k f m). distinct (snd p)"
  using assms by (induction m) (auto split: if_splits)

lemma setdefault_distinct:
  "\<forall>p \<in> set m. distinct (snd p) \<Longrightarrow> \<forall>p \<in> set (setdefault k [] m). distinct (snd p)"
  by (auto simp: setdefault_def)

lemma add_symbol_distinct:
  assumes "\<forall>p \<in> set m. distinct (snd p)"
  shows "\<forall>p \<in> set (add_symbol fullpath node m). distinct (snd p)"
proof -
  let ?sym = "ntext (cnode node)"
  let ?m1 = "setdefault ?sym [] m"
  have m1: "\<forall>p \<in> set ?m1. distinct (snd p)"
    using assms by (rule setdefault_distinct)
  show ?thesis
  proof (cases "fullpath \<notin> set (case map_of ?m1 ?sym of Some ps \<Rightarrow> ps | None \<Rightarrow> [])")
    case True
    have "\<forall>p \<in> set (AList.map_entry ?sym (\<lambda>ps. ps @ [fullpath]) ?m1). distinct (snd p)"
    proof (rule map_entry_distinct [OF m1])
      fix ps
      assume ps: "map_of ?m1 ?sym = Some ps"
      then have "(?sym, ps) \<in> set ?m1" by (rule map_of_SomeD)
      with m1 have "distinct ps" by auto
      moreover from True ps have "fullpath \<notin> set ps" by simp
      ultimately show "distinct (ps @ [fullpath])" by simp
    qed
    then show ?thesis
      unfolding add_symbol_def Let_def if_P [OF True] .
  next
    case False
    show ?thesis
      unfolding add_symbol_def Let_def if_not_P [OF False] by (rule m1)
  qed
qed

lemma add_symbols_distinct:
  "\<forall>p \<in> set m. distinct (snd p) \<Longrightarrow>
     \<forall>p \<in> set (foldl (\<lambda>a node. add_symbol fullpath node a) m nodes). distinct (snd p)"
  by (induction nodes arbitrary: m) (auto dest: add_symbol_distinct)

lemma scan_captures_distinct:
  "\<forall>p \<in> set m. distinct (snd p) \<Longrightarrow>
     \<forall>p \<in> set (scan_captures fullpath caps m). distinct (snd p)"
proof (induction caps arbitrary: m)
  case Nil
  then show ?case by (simp add: scan_captures_def)
next
  case (Cons entry caps)
  obtain cap_name nodes where entry: "entry = (cap_name, nodes)" by (cases entry)
  let ?m' = "if cap_name \<noteq> ''name'' then m
             else foldl (\<lambda>a node. add_symbol fullpath node a) m nodes"
  have "\<forall>p \<in> set ?m'. distinct (snd p)"
    using Cons.prems add_symbols_distinct [OF Cons.prems] by simp
  from Cons.IH [OF this] show ?case
    by (simp add: scan_captures_def entry)
qed

lemma scan_file_distinct:
  "\<forall>p \<in> set m. distinct (snd p) \<Longrightarrow>
     \<forall>p \<in> set (scan_file E read_text resolve path m). distinct (snd p)"
  by (auto simp: scan_file_def dest: scan_captures_distinct split: option.splits)

lemma scan_files_distinct:
  "\<forall>p \<in> set m. distinct (snd p) \<Longrightarrow>
     \<forall>p \<in> set (foldl (\<lambda>m path. scan_file E read_text resolve path m) m files).
        distinct (snd p)"
proof (induction files arbitrary: m)
  case Nil
  then show ?case by simp
next
  case (Cons path files)
  from scan_file_distinct [OF Cons.prems]
  have "\<forall>p \<in> set (scan_file E read_text resolve path m). distinct (snd p)" .
  from Cons.IH [OF this] show ?case by simp
qed

text \<open>
  C8.  Whatever the list of files is (the same file may occur more than once, and files may
  fail to be read or parsed), every list of paths in the index returned by the pre-scan is
  free of duplicates.
\<close>

theorem pre_scan_paths_distinct:
  assumes "map_of (pre_scan_dart E read_text resolve files) symbol = Some paths"
  shows "distinct paths"
proof -
  have "\<forall>p \<in> set (pre_scan_dart E read_text resolve files). distinct (snd p)"
    using scan_files_distinct [of "[]" E read_text resolve files]
    by (simp add: pre_scan_dart_def)
  moreover from assms have "(symbol, paths) \<in> set (pre_scan_dart E read_text resolve files)"
    by (rule map_of_SomeD)
  ultimately show ?thesis by auto
qed

lemma foo_scan:
  "pre_scan_dart foo_engine foo_read_text foo_resolve
     [''lib/a.dart'', ''lib/b.dart'', ''lib/a.dart'', ''lib/gone.dart'']
   = [(''Foo'', [''/repo/lib/a.dart'', ''/repo/lib/b.dart''])]"
  by code_simp

theorem pre_scan_paths_distinct_witness:
  "map_of (pre_scan_dart foo_engine foo_read_text foo_resolve
             [''lib/a.dart'', ''lib/b.dart'', ''lib/a.dart'', ''lib/gone.dart'']) ''Foo''
     = Some [''/repo/lib/a.dart'', ''/repo/lib/b.dart'']
   \<and> distinct [''/repo/lib/a.dart'', ''/repo/lib/b.dart'']"
proof -
  have found: "map_of (pre_scan_dart foo_engine foo_read_text foo_resolve
             [''lib/a.dart'', ''lib/b.dart'', ''lib/a.dart'', ''lib/gone.dart'']) ''Foo''
     = Some [''/repo/lib/a.dart'', ''/repo/lib/b.dart'']"
    by (simp add: foo_scan)
  from pre_scan_paths_distinct [OF found] found show ?thesis by blast
qed

section \<open>Documentation comments\<close>

lemma comment_loop_at_comment:
  "py_in ''comment'' (ctype c) \<Longrightarrow> comment_loop (Some c) = Some (py_strip (text_of c))"
  by simp

lemma function_of_bucket_doc:
  "function_of_bucket info = Some e \<Longrightarrow> fn_docstring e = doc_of (b_signature info)"
  by (auto simp: function_of_bucket_def Let_def split: option.splits)

lemma lib_buckets:
  "function_buckets (captures lib_engine ''functions'' lib_root) = [lib_bucket]"
  by code_simp

lemma lib_function_of_bucket: "function_of_bucket lib_bucket = Some lib_function"
  by code_simp

lemma lib_container: "container_of lib_sig_c = lib_method_c"
  by code_simp

lemma lib_no_comment_at_signature: "leading_line_comment lib_sig_c = None"
  by code_simp

lemma lib_comment_before_wrapper:
  "prev_sibling lib_method_c = Some lib_doc_c" "py_in ''comment'' (ctype lib_doc_c)"
  "py_strip (text_of lib_doc_c) = ''/// Doc.''"
  by code_simp+

text \<open>
  C10.  When the container of a function declaration is a wrapper node different from the
  signature node and the backward walk from the signature node finds no comment, the lookup
  is made again from the container: the docstring of the entity is what the walk from the
  container finds, so a comment that immediately precedes the wrapper is the docstring.
\<close>

theorem docstring_retried_at_container:
  assumes "info \<in> set (function_buckets (captures E ''functions'' root))"
    and "function_of_bucket info = Some e"
    and "container_of (b_signature info) \<noteq> b_signature info"
    and "leading_line_comment (b_signature info) = None"
  shows "e \<in> set (find_functions E root)
         \<and> fn_docstring e = leading_line_comment (container_of (b_signature info))
         \<and> (\<forall>c. prev_sibling (container_of (b_signature info)) = Some c
                  \<and> py_in ''comment'' (ctype c)
                \<longrightarrow> fn_docstring e = Some (py_strip (text_of c)))"
proof -
  from assms(1,2) have mem: "e \<in> set (find_functions E root)"
    by (auto simp: find_functions_eq emit_functions_mem)
  from assms(2-4) have doc: "fn_docstring e = leading_line_comment (container_of (b_signature info))"
    by (simp add: function_of_bucket_doc doc_of_def)
  have "fn_docstring e = Some (py_strip (text_of c))"
    if "prev_sibling (container_of (b_signature info)) = Some c" and "py_in ''comment'' (ctype c)" for c
    using that doc by (simp add: leading_line_comment_def)
  with mem doc show ?thesis by blast
qed

theorem docstring_retried_at_container_witness:
  "lib_bucket \<in> set (function_buckets (captures lib_engine ''functions'' lib_root))
   \<and> function_of_bucket lib_bucket = Some lib_function
   \<and> container_of (b_signature lib_bucket) \<noteq> b_signature lib_bucket
   \<and> leading_line_comment (b_signature lib_bucket) = None
   \<and> prev_sibling (container_of (b_signature lib_bucket)) = Some lib_doc_c
   \<and> lib_function \<in> set (find_functions lib_engine lib_root)
   \<and> fn_docstring lib_function = Some ''/// Doc.''"
proof -
  have sig: "b_signature lib_bucket = lib_sig_c"
    by (simp add: lib_bucket_def)
  have h1: "lib_bucket \<in> set (function_buckets (captures lib_engine ''functions'' lib_root))"
    by (simp add: lib_buckets)
  have h3: "container_of (b_signature lib_bucket) \<noteq> b_signature lib_bucket"
    unfolding sig lib_container by (simp add: lib_method_c_def lib_sig_c_def)
  have h4: "leading_line_comment (b_signature lib_bucket) = None"
    unfolding sig by (rule lib_no_comment_at_signature)
  have prev: "prev_sibling (container_of (b_signature lib_bucket)) = Some lib_doc_c"
    unfolding sig lib_container by (rule lib_comment_before_wrapper)
  from docstring_retried_at_container [OF h1 lib_function_of_bucket h3 h4] prev
    lib_comment_before_wrapper(2,3)
  have "lib_function \<in> set (find_functions lib_engine lib_root)
        \<and> fn_docstring lib_function = Some ''/// Doc.''"
    by auto
  with h1 lib_function_of_bucket h3 h4 prev show ?thesis by blast
qed

section \<open>Declarations without a name\<close>

lemma function_of_bucket_unnamed:
  assumes "\<not> truthy (b_name info)"
    and "\<not> truthy (extract_function_name (Some (b_signature info)))"
  shows "function_of_bucket info = None"
  using assms by (simp add: function_of_bucket_def resolve_name_def Let_def)

lemma emit_functions_append:
  "emit_functions (xs @ ys) = emit_functions xs @ emit_functions ys"
  by (simp add: emit_functions_def List.map_filter_def)

lemma emit_functions_Cons_None:
  "function_of_bucket info = None \<Longrightarrow> emit_functions (info # after) = emit_functions after"
  by (simp add: emit_functions_def List.map_filter_simps)

lemma anon_buckets:
  "function_buckets (captures anon_engine ''functions'' anon_root) = [anon_bucket, good_bucket]"
  by code_simp

lemma anon_unnamed:
  "\<not> truthy (b_name anon_bucket)"
  "\<not> truthy (extract_function_name (Some (b_signature anon_bucket)))"
  by code_simp+

lemma good_emitted: "emit_functions [good_bucket] = [good_entity]"
  by code_simp

lemma anon_readable:
  "anon_read_text ''lib/anon.dart'' = Some anon_source"
  "ts_parse anon_engine anon_source = Some anon_root"
  by code_simp+

text \<open>
  C4.  A declaration for which neither the captured name nor the derived name yields a name
  is left out of the functions: \<^verbatim>\<open>parse\<close> returns a record (no error), whose functions are
  the entities of the other declarations, in order, each built as if the nameless one were
  not there, and whose classes, variables, imports and calls are what the finders give.
\<close>

theorem unnamed_declaration_excluded:
  assumes "read_text path = Some source_code"
    and "ts_parse E source_code = Some root"
    and "function_buckets (captures E ''functions'' root) = before @ info # after"
    and "\<not> truthy (b_name info)"
    and "\<not> truthy (extract_function_name (Some (b_signature info)))"
  shows "function_of_bucket info = None
         \<and> parse E read_text path dep =
             Inr \<lparr>fr_file_path = path,
                  fr_functions = emit_functions before @ emit_functions after,
                  fr_classes = find_classes E root,
                  fr_variables = find_variables E root,
                  fr_imports = find_imports E root,
                  fr_function_calls = find_calls E root,
                  fr_is_dependency = dep,
                  fr_lang = language_name\<rparr>"
proof -
  from assms(4,5) have none: "function_of_bucket info = None"
    by (rule function_of_bucket_unnamed)
  have "find_functions E root = emit_functions before @ emit_functions after"
    by (simp add: find_functions_eq assms(3) emit_functions_append
        emit_functions_Cons_None [OF none])
  with none assms(1,2) show ?thesis
    by (simp add: parse_def)
qed

theorem unnamed_declaration_excluded_witness:
  "anon_read_text ''lib/anon.dart'' = Some anon_source
   \<and> ts_parse anon_engine anon_source = Some anon_root
   \<and> function_buckets (captures anon_engine ''functions'' anon_root) = [] @ anon_bucket # [good_bucket]
   \<and> \<not> truthy (b_name anon_bucket)
   \<and> \<not> truthy (extract_function_name (Some (b_signature anon_bucket)))
   \<and> parse anon_engine anon_read_text ''lib/anon.dart'' False =
       Inr \<lparr>fr_file_path = ''lib/anon.dart'',
            fr_functions = [good_entity],
            fr_classes = find_classes anon_engine anon_root,
            fr_variables = find_variables anon_engine anon_root,
            fr_imports = find_imports anon_engine anon_root,
            fr_function_calls = find_calls anon_engine anon_root,
            fr_is_dependency = False,
            fr_lang = language_name\<rparr>"
proof -
  have split: "function_buckets (captures anon_engine ''functions'' anon_root)
                 = [] @ anon_bucket # [good_bucket]"
    by (simp add: anon_buckets)
  have "emit_functions [] = []"
    by (simp add: emit_functions_def List.map_filter_simps)
  with unnamed_declaration_excluded [where read_text = anon_read_text
      and path = "''lib/anon.dart''" and E = anon_engine and dep = False,
      OF anon_readable split anon_unnamed]
  have "parse anon_engine anon_read_text ''lib/anon.dart'' False =
       Inr \<lparr>fr_file_path = ''lib/anon.dart'',
            fr_functions = [good_entity],
            fr_classes = find_classes anon_engine anon_root,
            fr_variables = find_variables anon_engine anon_root,
            fr_imports = find_imports anon_engine anon_root,
            fr_function_calls = find_calls anon_engine anon_root,
            fr_is_dependency = False,
            fr_lang = language_name\<rparr>"
    by (simp add: good_emitted)
  with anon_readable split anon_unnamed show ?thesis by blast
qed

section \<open>Line numbers\<close>

lemma wf_rows_node: "wf_rows n \<Longrightarrow> start_row n \<le> end_row n"
  by (cases n) simp

lemma wf_rows_child:
  assumes "wf_rows p" and "i < length (children p)"
  shows "wf_rows (children p ! i)"
    and "start_row p \<le> start_row (children p ! i)"
    and "end_row (children p ! i) \<le> end_row p"
  using assms by (cases p; simp add: list_all_length)+

lemma wf_rows_siblings:
  assumes "wf_rows p" and "i < j" and "j < length (children p)"
  shows "end_row (children p ! i) \<le> start_row (children p ! j)"
  using assms by (cases p) (simp add: sorted_wrt_iff_nth_less)

lemma chain_ok_wf: "wf_rows root \<Longrightarrow> chain_ok root n fs \<Longrightarrow> wf_rows n"
proof (induction fs arbitrary: n)
  case Nil
  then show ?case by simp
next
  case (Cons f fs)
  obtain i p where f: "f = (i, p)" by (cases f)
  from Cons.prems(2) have i: "i < length (children p)" and n: "children p ! i = n"
    and up: "chain_ok root p fs"
    by (simp_all add: f)
  from Cons.IH [OF Cons.prems(1) up] have "wf_rows p" .
  with i n show ?case by (auto dest: wf_rows_child(1))
qed

lemma in_tree_wf: "wf_rows root \<Longrightarrow> in_tree root c \<Longrightarrow> wf_rows (cnode c)"
  by (simp add: in_tree_def chain_ok_wf)

lemma in_tree_parent:
  assumes "in_tree root c" and "parent c = Some p"
  shows "in_tree root p"
proof (cases c)
  case (Cursor n fs)
  with assms show ?thesis
    by (cases fs) (auto simp: in_tree_def)
qed

lemma parent_rows:
  assumes "wf_rows root" and "in_tree root c" and "parent c = Some p"
  shows "start_row (cnode p) \<le> start_row (cnode c)"
proof (cases c)
  case (Cursor n fs)
  show ?thesis
  proof (cases fs)
    case Nil
    with Cursor assms(3) show ?thesis by simp
  next
    case (Cons f fs')
    obtain i q where f: "f = (i, q)" by (cases f)
    from assms(3) Cursor Cons f have p: "p = Cursor q fs'" by simp
    from assms(2) Cursor Cons f have i: "i < length (children q)" and n: "children q ! i = n"
      by (simp_all add: in_tree_def)
    from in_tree_wf [OF assms(1) in_tree_parent [OF assms(2,3)]] p have "wf_rows q" by simp
    from wf_rows_child(2) [OF this i] n p Cursor show ?thesis by simp
  qed
qed

lemma next_named_sibling_rows:
  assumes "wf_rows root" and "in_tree root c" and "next_named_sibling c = Some s"
  shows "in_tree root s" and "parent s = parent c"
    and "end_row (cnode c) \<le> start_row (cnode s)"
proof -
  obtain n fs where c: "c = Cursor n fs" by (cases c)
  from assms(3) c obtain i p fs' where fs: "fs = (i, p) # fs'"
    by (cases fs) auto
  from assms(3) c fs obtain j
    where j: "List.find (\<lambda>j. is_named (children p ! j)) [Suc i ..< length (children p)] = Some j"
      and s: "s = Cursor (children p ! j) ((j, p) # fs')"
    by (auto split: option.splits)
  from j have "j \<in> set [Suc i ..< length (children p)]"
    by (auto simp: find_Some_iff)
  then have ij: "i < j" and jl: "j < length (children p)" by simp_all
  from assms(2) c fs have n: "children p ! i = n" and up: "chain_ok root p fs'"
    by (simp_all add: in_tree_def)
  from up jl s show "in_tree root s" by (simp add: in_tree_def)
  from s c fs show "parent s = parent c" by simp
  from chain_ok_wf [OF assms(1) up] have "wf_rows p" .
  from wf_rows_siblings [OF this ij jl] n c s
  show "end_row (cnode c) \<le> start_row (cnode s)" by simp
qed

lemma climb_in_tree:
  "climb types oc = Some s \<Longrightarrow> (\<And>c. oc = Some c \<Longrightarrow> in_tree root c) \<Longrightarrow> in_tree root s"
proof (induction types oc rule: climb.induct)
  case (1 types)
  then show ?case by simp
next
  case (2 types cur)
  show ?case
  proof (cases "ctype cur \<in> set types")
    case True
    with "2.prems" show ?thesis by simp
  next
    case False
    with "2.prems"(1) have up: "climb types (parent cur) = Some s" by simp
    have "in_tree root c" if "parent cur = Some c" for c
      using "2.prems"(2) [OF refl] that by (rule in_tree_parent)
    from "2.IH" [OF False up this] show ?thesis .
  qed
qed

lemma find_signature_in_tree:
  "in_tree root node \<Longrightarrow> find_signature node = Some sig \<Longrightarrow> in_tree root sig"
  using climb_in_tree [of signature_types "Some node" sig root]
  by (simp add: find_signature_def del: climb.simps)

lemma container_of_cases:
  "container_of fn_node = fn_node \<or> parent fn_node = Some (container_of fn_node)"
  by (auto simp: container_of_def split: option.splits)

lemma container_in_tree: "in_tree root fn_node \<Longrightarrow> in_tree root (container_of fn_node)"
  using container_of_cases [of fn_node] by (auto dest: in_tree_parent)

lemma first_body_two:
  "first_body [a, b] = Some x \<Longrightarrow> a = Some x \<or> b = Some x"
  by (cases a; cases b) (auto split: if_splits)

lemma function_rows:
  assumes wf: "wf_rows root" and sig: "in_tree root fn_node"
  shows "start_row (cnode (container_of fn_node)) \<le> end_row (cnode (end_node_of fn_node))"
proof (cases "body_of fn_node")
  case None
  from in_tree_wf [OF wf container_in_tree [OF sig]] None show ?thesis
    by (simp add: end_node_of_def wf_rows_node)
next
  case (Some body_node)
  let ?container = "container_of fn_node"
  have cont: "in_tree root ?container" using sig by (rule container_in_tree)
  from Some have "next_named_sibling ?container = Some body_node
                  \<or> next_named_sibling fn_node = Some body_node"
    by (auto simp: body_of_def dest: first_body_two)
  then have "start_row (cnode ?container) \<le> end_row (cnode body_node)"
  proof
    assume nxt: "next_named_sibling ?container = Some body_node"
    from next_named_sibling_rows [OF wf cont nxt]
    have body: "in_tree root body_node"
      and after: "end_row (cnode ?container) \<le> start_row (cnode body_node)" by simp_all
    from in_tree_wf [OF wf cont] have "start_row (cnode ?container) \<le> end_row (cnode ?container)"
      by (rule wf_rows_node)
    moreover from in_tree_wf [OF wf body] have "start_row (cnode body_node) \<le> end_row (cnode body_node)"
      by (rule wf_rows_node)
    ultimately show ?thesis using after by simp
  next
    assume nxt: "next_named_sibling fn_node = Some body_node"
    from next_named_sibling_rows [OF wf sig nxt]
    have body: "in_tree root body_node" and par: "parent body_node = parent fn_node"
      and after: "end_row (cnode fn_node) \<le> start_row (cnode body_node)" by simp_all
    from in_tree_wf [OF wf body] have rows: "start_row (cnode body_node) \<le> end_row (cnode body_node)"
      by (rule wf_rows_node)
    from container_of_cases [of fn_node] show ?thesis
    proof
      assume "?container = fn_node"
      moreover from in_tree_wf [OF wf sig] have "start_row (cnode fn_node) \<le> end_row (cnode fn_node)"
        by (rule wf_rows_node)
      ultimately show ?thesis using after rows by simp
    next
      assume "parent fn_node = Some ?container"
      with par have "parent body_node = Some ?container" by simp
      from parent_rows [OF wf body this] rows show ?thesis by simp
    qed
  qed
  with Some show ?thesis by (simp add: end_node_of_def)
qed

text \<open>The signature of every bucket is a node of the tree.\<close>

lemma map_entry_keeps:
  assumes "\<forall>p \<in> set m. P (snd p)" and "\<And>x. P x \<Longrightarrow> P (f x)"
  shows "\<forall>p \<in> set (AList.map_entry k f m). P (snd p)"
  using assms by (induction m) (auto split: if_splits)

lemma bucket_keeps:
  assumes "\<forall>p \<in> set bs. in_tree root (b_signature (snd p))" and "in_tree root sig"
  shows "\<forall>p \<in> set (bucket sig bs). in_tree root (b_signature (snd p))"
  using assms by (auto simp: bucket_def)

lemma capture_step_keeps:
  assumes inv: "\<forall>p \<in> set bs. in_tree root (b_signature (snd p))"
    and node: "in_tree root (fst item)"
  shows "\<forall>p \<in> set (capture_step item bs). in_tree root (b_signature (snd p))"
proof (cases "find_signature (fst item)")
  case None
  with inv show ?thesis by (simp add: capture_step_def Let_def)
next
  case (Some sig)
  from find_signature_in_tree [OF node Some] have "in_tree root sig" .
  from bucket_keeps [OF inv this]
  have b: "\<forall>p \<in> set (bucket sig bs). in_tree root (b_signature (snd p))" .
  have named: "\<forall>p \<in> set (AList.map_entry k (\<lambda>b. b\<lparr>b_name := v\<rparr>) (bucket sig bs)).
                 in_tree root (b_signature (snd p))" for k v
    using b by (rule map_entry_keeps) simp
  have with_params: "\<forall>p \<in> set (AList.map_entry k (\<lambda>b. b\<lparr>b_params := v\<rparr>) (bucket sig bs)).
                 in_tree root (b_signature (snd p))" for k v
    using b by (rule map_entry_keeps) simp
  from b inv Some named with_params show ?thesis
    by (simp add: capture_step_def Let_def)
qed

lemma capture_steps_keep:
  "\<forall>p \<in> set bs. in_tree root (b_signature (snd p)) \<Longrightarrow>
   \<forall>item \<in> set caps. in_tree root (fst item) \<Longrightarrow>
   \<forall>p \<in> set (foldl (\<lambda>bs item. capture_step item bs) bs caps).
      in_tree root (b_signature (snd p))"
proof (induction caps arbitrary: bs)
  case Nil
  then show ?case by simp
next
  case (Cons item caps)
  from Cons.prems have "\<forall>p \<in> set (capture_step item bs). in_tree root (b_signature (snd p))"
    by (intro capture_step_keeps) simp_all
  from Cons.IH [OF this] Cons.prems(2) show ?case by simp
qed

lemma function_buckets_in_tree:
  assumes "\<forall>item \<in> set caps. in_tree root (fst item)" and "info \<in> set (function_buckets caps)"
  shows "in_tree root (b_signature info)"
  using capture_steps_keep [of "[]" root caps] assms
  by (auto simp: function_buckets_def)

lemma captures_nodes:
  assumes "captures_in_tree E query root" and "item \<in> set (captures E query root)"
  shows "in_tree root (fst item)"
proof (cases "map_of (init_queries E) query")
  case None
  with assms(2) show ?thesis by (simp add: captures_def)
next
  case (Some compiled)
  show ?thesis
  proof (cases compiled)
    case None
    with Some assms(2) show ?thesis by (simp add: captures_def)
  next
    case (Some q)
    with \<open>map_of (init_queries E) query = Some compiled\<close>
    have found: "map_of (init_queries E) query = Some (Some q)" by simp
    then have "q = query"
      by (auto simp: init_queries_def DART_QUERIES_def split: if_splits)
    with found assms(2)
    have "item \<in> set (concat (map (\<lambda>(capture_name, nodes).
                   map (\<lambda>captured. (captured, capture_name)) nodes) (run_query E query root)))"
      by (simp add: captures_def)
    then obtain entry where entry: "entry \<in> set (run_query E query root)"
      and "item \<in> set (map (\<lambda>captured. (captured, fst entry)) (snd entry))"
      by (auto simp: case_prod_beta)
    then have "fst item \<in> set (snd entry)" by auto
    with assms(1) entry show ?thesis
      by (auto simp: captures_in_tree_def list_all_iff)
  qed
qed

lemma function_lines:
  assumes "wf_rows root" and "captures_in_tree E ''functions'' root"
    and "e \<in> set (find_functions E root)"
  shows "1 \<le> fn_line_number e \<and> fn_line_number e \<le> fn_end_line e"
proof -
  from assms(3) obtain info where info: "info \<in> set (function_buckets (captures E ''functions'' root))"
    and e: "function_of_bucket info = Some e"
    by (auto simp: find_functions_eq emit_functions_mem)
  have "in_tree root (b_signature info)"
    using info by (rule function_buckets_in_tree [rotated]) (auto dest: captures_nodes [OF assms(2)])
  from function_rows [OF assms(1) this] e show ?thesis
    by (auto simp: function_of_bucket_def Let_def split: option.splits)
qed

lemma class_lines:
  assumes "wf_rows root" and "captures_in_tree E ''classes'' root"
    and "e \<in> set (find_classes E root)"
  shows "1 \<le> cl_line_number e \<and> cl_line_number e \<le> cl_end_line e"
proof -
  from assms(3) obtain item where "item \<in> set (captures E ''classes'' root)"
    and e: "e = class_of_capture (fst item)"
    by (auto simp: find_classes_def)
  from captures_nodes [OF assms(2) this(1)] have "in_tree root (fst item)" .
  from wf_rows_node [OF in_tree_wf [OF assms(1) this]] e show ?thesis
    by (simp add: class_of_capture_def)
qed

lemma import_lines: "e \<in> set (find_imports E root) \<Longrightarrow> 1 \<le> im_line_number e"
  by (auto simp: find_imports_def import_of_capture_def Let_def)

lemma lib_valid:
  "lib_read_text ''lib/a.dart'' = Some lib_source"
  "ts_parse lib_engine lib_source = Some lib_root"
  "wf_rows lib_root"
  "captures_in_tree lib_engine ''functions'' lib_root"
  "captures_in_tree lib_engine ''classes'' lib_root"
  by code_simp+

text \<open>
  C7.  On valid input (the rows of the tree are well-formed and the captured nodes are
  nodes of the tree), every function and every class entity has a line number of at least
  1 and an end line no smaller than its line number; every import and every variable
  entity, which carry no end line, has a line number of at least 1.
\<close>

theorem entity_lines:
  assumes "read_text path = Some source_code"
    and "ts_parse E source_code = Some root"
    and "wf_rows root"
    and "captures_in_tree E ''functions'' root"
    and "captures_in_tree E ''classes'' root"
  shows "\<exists>r. parse E read_text path dep = Inr r
           \<and> (\<forall>e \<in> set (fr_functions r). 1 \<le> fn_line_number e \<and> fn_line_number e \<le> fn_end_line e)
           \<and> (\<forall>e \<in> set (fr_classes r). 1 \<le> cl_line_number e \<and> cl_line_number e \<le> cl_end_line e)
           \<and> (\<forall>e \<in> set (fr_imports r). 1 \<le> im_line_number e)
           \<and> (\<forall>e \<in> set (fr_variables r). 1 \<le> va_line_number e)"
  using assms
  by (auto simp: parse_def find_variables_empty
      dest: function_lines class_lines import_lines)

theorem entity_lines_witness:
  "lib_read_text ''lib/a.dart'' = Some lib_source
   \<and> ts_parse lib_engine lib_source = Some lib_root
   \<and> wf_rows lib_root
   \<and> captures_in_tree lib_engine ''functions'' lib_root
   \<and> captures_in_tree lib_engine ''classes'' lib_root
   \<and> parse lib_engine lib_read_text ''lib/a.dart'' True = Inr lib_record
   \<and> list_all (\<lambda>e. 1 \<le> fn_line_number e \<and> fn_line_number e \<le> fn_end_line e)
        (fr_functions lib_record)
   \<and> list_all (\<lambda>e. 1 \<le> cl_line_number e \<and> cl_line_number e \<le> cl_end_line e)
        (fr_classes lib_record)
   \<and> list_all (\<lambda>e. 1 \<le> im_line_number e) (fr_imports lib_record)
   \<and> map fn_line_number (fr_functions lib_record) = [4]
   \<and> map fn_end_line (fr_functions lib_record) = [6]"
proof -
  from entity_lines [where read_text = lib_read_text and path = "''lib/a.dart''"
      and E = lib_engine and dep = True, OF lib_valid]
  have "list_all (\<lambda>e. 1 \<le> fn_line_number e \<and> fn_line_number e \<le> fn_end_line e)
          (fr_functions lib_record)
        \<and> list_all (\<lambda>e. 1 \<le> cl_line_number e \<and> cl_line_number e \<le> cl_end_line e)
          (fr_classes lib_record)
        \<and> list_all (\<lambda>e. 1 \<le> im_line_number e) (fr_imports lib_record)"
    by (simp add: lib_parse list_all_iff)
  moreover have "map fn_line_number (fr_functions lib_record) = [4]
               \<and> map fn_end_line (fr_functions lib_record) = [6]"
    by (simp add: lib_record_def)
  ultimately show ?thesis using lib_valid lib_parse by blast
qed

section \<open>Named constructors\<close>

text \<open>
  The name of a constructor bucket is the derived dotted name, whatever identifier was
  captured.
\<close>

lemma ctor_derived_name: "extract_function_name (Some ctor_sig_c) = Some ''Type.named''"
  by code_simp

lemma ctor_signature_type: "ctype ctor_sig_c = ''constructor_signature''"
  by code_simp

lemma ctor_name_overrides:
  "resolve_name \<lparr>b_signature = ctor_sig_c, b_name = captured, b_params = p\<rparr> = Some ''Type.named''"
  by (simp add: resolve_name_def Let_def ctor_derived_name ctor_signature_type)

text \<open>
  Among the direct children of the captured parameter list only a
  \<^verbatim>\<open>simple_formal_parameter\<close> gives a name; a \<^verbatim>\<open>normal_formal_parameter\<close> gives one only
  below a nested \<^verbatim>\<open>formal_parameter_list\<close>.
\<close>

lemma param_child_simple:
  assumes "ctype ch = ''simple_formal_parameter''"
    and "child_by_field_name ch ''name'' = Some idn"
  shows "param_child ch = [text_of idn]"
  using assms by (simp add: param_child_def name_field_def)

lemma param_child_normal_direct:
  assumes "ctype ch = ''normal_formal_parameter''"
  shows "param_child ch = []"
  using assms by (simp add: param_child_def)

lemma nested_param_normal:
  assumes "ctype ch = ''normal_formal_parameter''"
    and "child_by_field_name ch ''name'' = Some idn"
  shows "nested_param ch = [text_of idn]"
  using assms by (simp add: nested_param_def name_field_def)

text \<open>
  C1.  For the constructor \<^verbatim>\<open>Type.named(int x)\<close> the entity has the derived name
  \<^verbatim>\<open>Type.named\<close>, and an empty list of arguments: the typed parameter is a direct child
  of the captured parameter list, of type \<^verbatim>\<open>normal_formal_parameter\<close> in the first tree and
  \<^verbatim>\<open>formal_parameter\<close> in the second, and neither is read there.
\<close>

theorem named_constructor_args_dropped:
  "map (\<lambda>e. (fn_name e, fn_args e)) (find_functions ctor_engine ctor_root)
     = [(''Type.named'', [])]
   \<and> map (\<lambda>e. (fn_name e, fn_args e)) (find_functions alt_engine alt_root)
     = [(''Type.named'', [])]"
  by code_simp

end
